theory Spec2Isabelle
  imports Complex_Main "HOL-Library.Sublist"
begin

section \<open>The FORE ledger (apps/rewards/models.py)\<close>

text \<open>
  Token amounts are Python \<open>Decimal\<close> values; decimal arithmetic on them is exact, so
  they are modelled as rationals. Users, lessons, courses, quizzes and achievements are
  referred to by their primary keys (natural numbers). Every exception the code raises is
  a value of \<open>error\<close>: \<open>ValueError\<close> carries the message of the \<open>raise\<close>,
  \<open>DoesNotExist\<close> is what \<open>user.fore_wallet\<close> raises for a user without a wallet row,
  and \<open>IntegrityError\<close> is what an insert raises that breaks a \<open>unique_together\<close>.
\<close>

datatype error = ValueError string | DoesNotExist | IntegrityError

definition InvalidAmount :: error where
  "InvalidAmount = ValueError ''La cantidad debe ser positiva''"

definition InsufficientBalance :: error where
  "InsufficientBalance = ValueError ''Balance insuficiente''"

record fore_wallet =
  w_user :: nat
  balance :: rat
  total_earned :: rat
  total_spent :: rat
  frozen_amount :: rat

record txn =
  t_user :: nat
  transaction_type :: string
  amount :: rat
  balance_after :: rat
  description :: string
  related_course :: "nat option"
  related_lesson :: "nat option"
  related_quiz :: "nat option"
  related_achievement :: "nat option"

text \<open>The values of \<open>TransactionType\<close> that the modelled code uses.\<close>

definition LESSON_COMPLETED :: string where "LESSON_COMPLETED = ''lesson_completed''"
definition ACHIEVEMENT_EARNED :: string where "ACHIEVEMENT_EARNED = ''achievement_earned''"
definition REWARD_PURCHASE :: string where "REWARD_PURCHASE = ''reward_purchase''"

record user_stats =
  completed_courses :: nat
  completed_lessons :: nat
  passed_quizzes :: nat

text \<open>
  \<open>progress\<close> is the dictionary stored in \<open>progress_when_earned\<close>, without its
  timestamp and without the float copy of the wallet's total.
\<close>

record progress =
  activity_type :: string
  total_courses :: nat
  total_lessons :: nat
  total_quizzes :: nat

record user_achievement =
  ua_user :: nat
  ua_achievement :: nat
  fore_tokens_awarded :: nat
  progress_when_earned :: progress

record achievement =
  ach_id :: nat
  ach_title :: string
  fore_tokens_reward :: nat
  required_courses :: nat
  required_lessons :: nat
  required_quizzes :: nat
  required_streak_days :: nat
  required_fore_tokens :: nat
  ach_is_active :: bool
  max_recipients :: "nat option"

record reward =
  rw_title :: string
  rw_category :: string
  fore_cost :: nat
  rw_is_active :: bool
  stock_quantity :: "nat option"
  max_per_user :: "nat option"
  available_from :: "nat option"
  available_until :: "nat option"
  requires_shipping :: bool
  total_redeemed :: nat

record reward_redemption =
  rd_user :: nat
  rd_reward :: nat
  rd_fore_cost :: nat
  rd_status :: string
  delivery_address :: string
  delivery_phone :: string
  redemption_code :: string

text \<open>
  The database. \<open>transactions\<close>, \<open>user_achievements\<close> and \<open>redemptions\<close> list the rows
  of their tables in creation order; \<open>achievements\<close> lists the catalogue in the order
  \<open>Achievement.objects\<close> yields it. \<open>stats\<close> stands for the three counting queries on the
  course tables (completed enrolments, completed lesson progress rows, distinct passed
  quizzes), which nothing modelled here writes.
\<close>

record db =
  wallets :: "nat \<Rightarrow> fore_wallet option"
  transactions :: "txn list"
  achievements :: "achievement list"
  user_achievements :: "user_achievement list"
  stats :: "nat \<Rightarrow> user_stats"
  rewards :: "nat \<Rightarrow> reward option"
  redemptions :: "reward_redemption list"

definition new_wallet :: "nat \<Rightarrow> fore_wallet" where
  "new_wallet u = \<lparr>w_user = u, balance = 0, total_earned = 0, total_spent = 0, frozen_amount = 0\<rparr>"

definition wallet_save :: "fore_wallet \<Rightarrow> db \<Rightarrow> db" where
  "wallet_save w d = d\<lparr>wallets := (wallets d)(w_user w \<mapsto> w)\<rparr>"

definition transaction_create :: "txn \<Rightarrow> db \<Rightarrow> db" where
  "transaction_create t d = d\<lparr>transactions := transactions d @ [t]\<rparr>"

definition available_balance :: "fore_wallet \<Rightarrow> rat" where
  "available_balance self = balance self - frozen_amount self"

definition can_spend :: "fore_wallet \<Rightarrow> rat \<Rightarrow> bool" where
  "can_spend self amt = (available_balance self \<ge> amt)"

text \<open>
  \<open>add_tokens\<close> and \<open>spend_tokens\<close> are methods of a wallet instance: they return what the
  call returns or raises, the instance as the call leaves it, and the database. The
  instance computes with exact decimals, and \<open>save\<close> followed by
  \<open>Transaction.objects.create\<close> hands these values to columns declared
  \<open>DecimalField(max_digits=12, decimal_places=2)\<close>. The database below holds the values
  as the instance computed them. That is what the columns hold exactly when every value
  written is a whole number of hundredths (\<open>whole_cents\<close>) below \<open>10^10\<close> in absolute
  value (\<open>numeric_12_2\<close>, and \<open>columns_fit\<close> for a whole database): a value with more
  decimals would be rounded by the column and a larger one refused. The receivers pass
  whole numbers of tokens. The properties of stored balances and transactions are stated
  for runs in which every value written satisfies \<open>numeric_12_2\<close>.
\<close>

definition whole_cents :: "rat \<Rightarrow> bool" where
  "whole_cents v = (of_int \<lfloor>v * 100\<rfloor> = v * 100)"

definition numeric_12_2 :: "rat \<Rightarrow> bool" where
  "numeric_12_2 v = (whole_cents v \<and> \<bar>v\<bar> < 10 ^ 10)"

definition wallet_fits :: "fore_wallet \<Rightarrow> bool" where
  "wallet_fits w =
     (numeric_12_2 (balance w) \<and> numeric_12_2 (total_earned w)
      \<and> numeric_12_2 (total_spent w) \<and> numeric_12_2 (frozen_amount w))"

definition columns_fit :: "db \<Rightarrow> bool" where
  "columns_fit d =
     ((\<forall>u w. wallets d u = Some w \<longrightarrow> wallet_fits w)
      \<and> list_all (\<lambda>t. numeric_12_2 (amount t) \<and> numeric_12_2 (balance_after t))
            (transactions d))"

definition add_tokens ::
  "fore_wallet \<Rightarrow> rat \<Rightarrow> string \<Rightarrow> string \<Rightarrow> db \<Rightarrow> (error + rat) \<times> fore_wallet \<times> db" where
  "add_tokens self amt descr ttype d =
     (if amt \<le> 0 then (Inl (ValueError ''La cantidad debe ser positiva''), self, d)
      else
        let self' = self\<lparr>balance := balance self + amt,
                         total_earned := total_earned self + amt\<rparr>;
            d1 = wallet_save self' d;
            d2 = transaction_create
                   \<lparr>t_user = w_user self', transaction_type = ttype, amount = amt,
                    balance_after = balance self', description = descr,
                    related_course = None, related_lesson = None,
                    related_quiz = None, related_achievement = None\<rparr> d1
        in (Inr (balance self'), self', d2))"

definition spend_tokens ::
  "fore_wallet \<Rightarrow> rat \<Rightarrow> string \<Rightarrow> string \<Rightarrow> db \<Rightarrow> (error + rat) \<times> fore_wallet \<times> db" where
  "spend_tokens self amt descr ttype d =
     (if \<not> can_spend self amt then (Inl (ValueError ''Balance insuficiente''), self, d)
      else
        let self' = self\<lparr>balance := balance self - amt,
                         total_spent := total_spent self + amt\<rparr>;
            d1 = wallet_save self' d;
            d2 = transaction_create
                   \<lparr>t_user = w_user self', transaction_type = ttype, amount = - amt,
                    balance_after = balance self', description = descr,
                    related_course = None, related_lesson = None,
                    related_quiz = None, related_achievement = None\<rparr> d1
        in (Inr (balance self'), self', d2))"

text \<open>
  A caller reaches a wallet through \<open>user.fore_wallet\<close>, which raises \<open>DoesNotExist\<close>
  when the user has no wallet row. A ledger operation is one such call; a sequence of
  operations stops at the first one that raises.
\<close>

datatype ledger_op = Credit nat rat string string | Debit nat rat string string

fun apply_ledger_op :: "ledger_op \<Rightarrow> db \<Rightarrow> error + db" where
  "apply_ledger_op (Credit u amt descr ttype) d =
     (case wallets d u of
        None \<Rightarrow> Inl DoesNotExist
      | Some w \<Rightarrow> (case add_tokens w amt descr ttype d of
                    (Inl e, _, _) \<Rightarrow> Inl e
                  | (Inr _, _, d') \<Rightarrow> Inr d'))"
| "apply_ledger_op (Debit u amt descr ttype) d =
     (case wallets d u of
        None \<Rightarrow> Inl DoesNotExist
      | Some w \<Rightarrow> (case spend_tokens w amt descr ttype d of
                    (Inl e, _, _) \<Rightarrow> Inl e
                  | (Inr _, _, d') \<Rightarrow> Inr d'))"

fun run_ledger_ops :: "ledger_op list \<Rightarrow> db \<Rightarrow> error + db" where
  "run_ledger_ops [] d = Inr d"
| "run_ledger_ops (op # ops) d =
     (case apply_ledger_op op d of Inl e \<Rightarrow> Inl e | Inr d' \<Rightarrow> run_ledger_ops ops d')"

fun credited :: "nat \<Rightarrow> ledger_op \<Rightarrow> rat" where
  "credited u (Credit v amt _ _) = (if v = u then amt else 0)"
| "credited u (Debit _ _ _ _) = 0"

fun debited :: "nat \<Rightarrow> ledger_op \<Rightarrow> rat" where
  "debited u (Debit v amt _ _) = (if v = u then amt else 0)"
| "debited u (Credit _ _ _ _) = 0"

text \<open>
  The amounts of a sequence of operations fit the columns when each is a whole number
  of hundredths and their absolute values add up to less than \<open>10^10\<close>; then no balance
  or total can leave the range of the columns. \<open>fits_within s d\<close> bounds every stored
  value of \<open>d\<close> by \<open>s\<close>.
\<close>

fun op_amount :: "ledger_op \<Rightarrow> rat" where
  "op_amount (Credit _ amt _ _) = amt"
| "op_amount (Debit _ amt _ _) = amt"

definition amounts_fit :: "ledger_op list \<Rightarrow> bool" where
  "amounts_fit ops =
     (list_all (\<lambda>op. whole_cents (op_amount op)) ops
      \<and> sum_list (map (\<lambda>op. \<bar>op_amount op\<bar>) ops) < 10 ^ 10)"

definition value_within :: "rat \<Rightarrow> rat \<Rightarrow> bool" where
  "value_within s v = (whole_cents v \<and> \<bar>v\<bar> \<le> s)"

definition fits_within :: "rat \<Rightarrow> db \<Rightarrow> bool" where
  "fits_within s d =
     ((\<forall>u w. wallets d u = Some w \<longrightarrow>
          value_within s (balance w) \<and> value_within s (total_earned w)
          \<and> value_within s (total_spent w) \<and> value_within s (frozen_amount w))
      \<and> list_all (\<lambda>t. value_within s (amount t) \<and> value_within s (balance_after t))
            (transactions d))"

text \<open>A database in which every wallet is as \<open>FOREWallet.objects.create\<close> made it and
  no transaction has been recorded yet.\<close>

definition fresh_ledger :: "db \<Rightarrow> bool" where
  "fresh_ledger d = ((\<forall>u w. wallets d u = Some w \<longrightarrow> w = new_wallet u) \<and> transactions d = [])"

definition user_transactions :: "nat \<Rightarrow> db \<Rightarrow> txn list" where
  "user_transactions u d = filter (\<lambda>t. t_user t = u) (transactions d)"

fun chain_from :: "rat \<Rightarrow> txn list \<Rightarrow> bool" where
  "chain_from b [] = True"
| "chain_from b (t # ts) = (balance_after t = b + amount t \<and> chain_from (balance_after t) ts)"

fun closing_balance :: "rat \<Rightarrow> txn list \<Rightarrow> rat" where
  "closing_balance b [] = b"
| "closing_balance b (t # ts) = closing_balance (balance_after t) ts"


definition ledger_inv_at :: "nat \<Rightarrow> ledger_op list \<Rightarrow> db \<Rightarrow> bool" where
  "ledger_inv_at u ops d =
     ((case wallets d u of
         None \<Rightarrow> user_transactions u d = []
       | Some w \<Rightarrow> w_user w = u
            \<and> balance w = total_earned w - total_spent w
            \<and> balance w = sum_list (map (credited u) ops) - sum_list (map (debited u) ops)
            \<and> closing_balance 0 (user_transactions u d) = balance w)
      \<and> chain_from 0 (user_transactions u d))"

definition ledger_inv :: "ledger_op list \<Rightarrow> db \<Rightarrow> bool" where
  "ledger_inv ops d = (\<forall>u. ledger_inv_at u ops d)"

section \<open>Achievements (apps/rewards/models.py, apps/rewards/signals.py)\<close>

text \<open>
  \<open>contains s sub\<close> is the lookup \<open>description__contains\<close>: on the configured
  PostgreSQL backend a \<open>LIKE\<close> whose pattern is escaped, that is a test for \<open>sub\<close>
  occurring in \<open>s\<close>. \<open>transactions_filter_update\<close> is \<open>Transaction.objects.filter(...).update(...)\<close>.
\<close>

fun contains :: "string \<Rightarrow> string \<Rightarrow> bool" where
  "contains [] sub = (sub = [])"
| "contains (c # cs) sub = (prefix sub (c # cs) \<or> contains cs sub)"

definition transactions_filter_update :: "(txn \<Rightarrow> bool) \<Rightarrow> (txn \<Rightarrow> txn) \<Rightarrow> db \<Rightarrow> db" where
  "transactions_filter_update P f d =
     d\<lparr>transactions := map (\<lambda>t. if P t then f t else t) (transactions d)\<rparr>"

definition wallet_create :: "nat \<Rightarrow> db \<Rightarrow> db" where
  "wallet_create u d = d\<lparr>wallets := (wallets d)(u \<mapsto> new_wallet u)\<rparr>"

definition has_achievement :: "nat \<Rightarrow> achievement \<Rightarrow> db \<Rightarrow> bool" where
  "has_achievement u a d =
     list_ex (\<lambda>g. ua_user g = u \<and> ua_achievement g = ach_id a) (user_achievements d)"

definition recipients_count :: "achievement \<Rightarrow> db \<Rightarrow> nat" where
  "recipients_count self d =
     length (filter (\<lambda>g. ua_achievement g = ach_id self) (user_achievements d))"

definition is_available :: "achievement \<Rightarrow> db \<Rightarrow> bool" where
  "is_available self d =
     (if \<not> ach_is_active self then False
      else if (case max_recipients self of
                 None \<Rightarrow> False
               | Some m \<Rightarrow> m \<noteq> 0 \<and> recipients_count self d \<ge> m) then False
      else True)"

definition check_achievement :: "achievement \<Rightarrow> nat \<Rightarrow> db \<Rightarrow> bool" where
  "check_achievement self u d =
     (if has_achievement u self d then False
      else if \<not> is_available self d then False
      else if required_courses self > 0
              \<and> completed_courses (stats d u) < required_courses self then False
      else if required_lessons self > 0
              \<and> completed_lessons (stats d u) < required_lessons self then False
      else if required_quizzes self > 0
              \<and> passed_quizzes (stats d u) < required_quizzes self then False
      else if required_fore_tokens self > 0
              \<and> (case wallets d u of
                    None \<Rightarrow> True
                  | Some wallet \<Rightarrow> total_earned wallet < of_nat (required_fore_tokens self))
           then False
      else True)"

text \<open>
  The specification's reading of eligibility, for comparison with \<open>check_achievement\<close>:
  every non-zero threshold the achievement declares is met by the user's cumulative
  figures. The figures are the three counts, the lifetime tokens earned (zero without a
  wallet) and the streak length.
\<close>

record cumulative_stats =
  cs_courses :: nat
  cs_lessons :: nat
  cs_quizzes :: nat
  cs_tokens_earned :: rat
  cs_streak_days :: nat

definition current_stats :: "nat \<Rightarrow> nat \<Rightarrow> db \<Rightarrow> cumulative_stats" where
  "current_stats u streak d =
     \<lparr>cs_courses = completed_courses (stats d u),
      cs_lessons = completed_lessons (stats d u),
      cs_quizzes = passed_quizzes (stats d u),
      cs_tokens_earned = (case wallets d u of None \<Rightarrow> 0 | Some w \<Rightarrow> total_earned w),
      cs_streak_days = streak\<rparr>"

definition every_declared_threshold_met :: "achievement \<Rightarrow> cumulative_stats \<Rightarrow> bool" where
  "every_declared_threshold_met a s =
     ((required_courses a = 0 \<or> required_courses a \<le> cs_courses s)
      \<and> (required_lessons a = 0 \<or> required_lessons a \<le> cs_lessons s)
      \<and> (required_quizzes a = 0 \<or> required_quizzes a \<le> cs_quizzes s)
      \<and> (required_streak_days a = 0 \<or> required_streak_days a \<le> cs_streak_days s)
      \<and> (required_fore_tokens a = 0 \<or> of_nat (required_fore_tokens a) \<le> cs_tokens_earned s))"

definition achievement_description :: "achievement \<Rightarrow> string" where
  "achievement_description a = ''Logro obtenido: '' @ ach_title a"

text \<open>
  \<open>reward_achievement_earned\<close> is the \<open>post_save\<close> receiver of \<open>UserAchievement\<close>;
  \<open>user_achievement_create\<close> is \<open>UserAchievement.objects.create\<close>: the row is inserted
  (the insert fails on a second row for the pair), \<open>save\<close> fills \<open>fore_tokens_awarded\<close>
  from the achievement, and the receiver runs after the insert. No transaction encloses
  the two, so what the receiver raises leaves the inserted row in place.
\<close>

definition reward_achievement_earned ::
  "user_achievement \<Rightarrow> achievement \<Rightarrow> bool \<Rightarrow> db \<Rightarrow> (error + unit) \<times> db" where
  "reward_achievement_earned instance a created d =
     (if created then
        (case wallets d (ua_user instance) of
           None \<Rightarrow> (Inr (), wallet_create (ua_user instance) d)
         | Some wallet \<Rightarrow>
             (case add_tokens wallet (of_nat (fore_tokens_awarded instance))
                     (achievement_description a) ACHIEVEMENT_EARNED d of
                (Inl e, _, d1) \<Rightarrow> (Inl e, d1)
              | (Inr _, _, d1) \<Rightarrow>
                  (Inr (), transactions_filter_update
                     (\<lambda>t. t_user t = ua_user instance \<and> contains (description t) (ach_title a))
                     (\<lambda>t. t\<lparr>related_achievement := Some (ach_id a)\<rparr>) d1)))
      else (Inr (), d))"

definition user_achievement_create ::
  "nat \<Rightarrow> achievement \<Rightarrow> progress \<Rightarrow> db \<Rightarrow> (error + unit) \<times> db" where
  "user_achievement_create u a p d =
     (if has_achievement u a d then (Inl IntegrityError, d)
      else
        let instance = \<lparr>ua_user = u, ua_achievement = ach_id a,
                        fore_tokens_awarded = fore_tokens_reward a,
                        progress_when_earned = p\<rparr>;
            d1 = d\<lparr>user_achievements := user_achievements d @ [instance]\<rparr>
        in reward_achievement_earned instance a True d1)"

definition progress_snapshot :: "nat \<Rightarrow> string \<Rightarrow> db \<Rightarrow> progress" where
  "progress_snapshot u activity d =
     \<lparr>activity_type = activity,
      total_courses = completed_courses (stats d u),
      total_lessons = completed_lessons (stats d u),
      total_quizzes = passed_quizzes (stats d u)\<rparr>"

definition available_achievements :: "nat \<Rightarrow> db \<Rightarrow> achievement list" where
  "available_achievements u d =
     filter (\<lambda>a. ach_is_active a \<and> \<not> has_achievement u a d) (achievements d)"

fun check_achievements_loop ::
  "achievement list \<Rightarrow> nat \<Rightarrow> string \<Rightarrow> db \<Rightarrow> (error + unit) \<times> db" where
  "check_achievements_loop [] u activity d = (Inr (), d)"
| "check_achievements_loop (a # as) u activity d =
     (if check_achievement a u d then
        (case user_achievement_create u a (progress_snapshot u activity d) d of
           (Inl e, d') \<Rightarrow> (Inl e, d')
         | (Inr _, d') \<Rightarrow> check_achievements_loop as u activity d')
      else check_achievements_loop as u activity d)"

definition check_achievements_for_user :: "nat \<Rightarrow> string \<Rightarrow> db \<Rightarrow> (error + unit) \<times> db" where
  "check_achievements_for_user u activity d =
     check_achievements_loop (available_achievements u d) u activity d"

section \<open>Lesson, quiz and course receivers (apps/rewards/signals.py)\<close>















text \<open>
  Auxiliary notions for the properties of the grant loop: the number of grant rows of a
  pair, a later state of the same catalogue and activity in which grants have only been
  added, and whether the user's wallet meets an achievement's token threshold.
\<close>

definition grant_count :: "nat \<Rightarrow> nat \<Rightarrow> db \<Rightarrow> nat" where
  "grant_count u aid d =
     length (filter (\<lambda>g. ua_user g = u \<and> ua_achievement g = aid) (user_achievements d))"

definition grants_extend :: "db \<Rightarrow> db \<Rightarrow> bool" where
  "grants_extend d d' =
     (stats d' = stats d \<and> achievements d' = achievements d
      \<and> prefix (user_achievements d) (user_achievements d'))"

definition token_threshold_met :: "achievement \<Rightarrow> nat \<Rightarrow> db \<Rightarrow> bool" where
  "token_threshold_met a u d =
     (case wallets d u of
        None \<Rightarrow> False
      | Some w \<Rightarrow> of_nat (required_fore_tokens a) \<le> total_earned w)"

section \<open>Runs of the system\<close>











text \<open>The number of transactions of a user with a given type and amount.\<close>

definition credits_of :: "nat \<Rightarrow> string \<Rightarrow> rat \<Rightarrow> db \<Rightarrow> nat" where
  "credits_of u ttype amt d =
     length (filter (\<lambda>t. t_user t = u \<and> transaction_type t = ttype \<and> amount t = amt)
               (transactions d))"





section \<open>Leaderboards (apps/rewards/models.py)\<close>

datatype leaderboard_category =
  FORE_TOKENS | COURSES_COMPLETED | LESSONS_COMPLETED | QUIZZES_PASSED
  | ACHIEVEMENTS_EARNED | STREAK_DAYS

datatype leaderboard_period = DAILY | WEEKLY | MONTHLY | ALL_TIME

record leaderboard =
  lb_category :: leaderboard_category
  lb_period :: leaderboard_period
  max_positions :: nat
  first_place_reward :: nat
  second_place_reward :: nat
  third_place_reward :: nat

record user =
  user_id :: nat
  user_role :: string
  user_is_active :: bool
  user_created_at :: nat

record user_ranking =
  ur_user :: nat
  ur_position :: nat
  ur_score :: rat
  reward_claimed :: bool
  reward_amount :: nat

text \<open>
  What the queries of \<open>update_rankings\<close> return for one user when restricted to the
  leaderboard's period (to nothing, for an all-time leaderboard): the sum of the
  positive transaction amounts, and the counts of completed courses, completed lessons,
  distinct passed quizzes and achievements earned.
\<close>

record period_activity =
  pa_tokens_earned :: rat
  pa_courses :: nat
  pa_lessons :: nat
  pa_quizzes :: nat
  pa_achievements :: nat

text \<open>
  \<open>User.objects.filter(role='student', is_active=True)\<close> under the model's
  \<open>ordering = ['-created_at']\<close>. The argument lists the rows of the user table in
  the order in which the database produces rows of equal \<open>created_at\<close>, which SQL leaves
  open; the ordering is a stable sort, so every order of such rows is covered by some
  argument.
\<close>

definition order_by_desc :: "('a \<Rightarrow> nat) \<Rightarrow> 'a list \<Rightarrow> 'a list" where
  "order_by_desc k xs = rev (sort_key k (rev xs))"

definition students :: "user list \<Rightarrow> user list" where
  "students rows =
     order_by_desc user_created_at
       (filter (\<lambda>u. user_role u = ''student'' \<and> user_is_active u) rows)"

text \<open>
  The score of one user. The code converts token sums with \<open>float\<close>; the conversion
  keeps the order of decimals of at most twelve digits, which is all the comparison and
  the sort use, so the score is kept as the exact number. No branch computes a score
  for \<open>STREAK_DAYS\<close>, which leaves the initial 0.
\<close>

definition user_score :: "leaderboard \<Rightarrow> (nat \<Rightarrow> period_activity) \<Rightarrow> db \<Rightarrow> nat \<Rightarrow> rat" where
  "user_score self activity d u =
     (case lb_category self of
        FORE_TOKENS \<Rightarrow>
          (case wallets d u of
             None \<Rightarrow> 0
           | Some wallet \<Rightarrow>
               if lb_period self = ALL_TIME then total_earned wallet
               else pa_tokens_earned (activity u))
      | COURSES_COMPLETED \<Rightarrow> of_nat (pa_courses (activity u))
      | LESSONS_COMPLETED \<Rightarrow> of_nat (pa_lessons (activity u))
      | QUIZZES_PASSED \<Rightarrow> of_nat (pa_quizzes (activity u))
      | ACHIEVEMENTS_EARNED \<Rightarrow> of_nat (pa_achievements (activity u))
      | STREAK_DAYS \<Rightarrow> 0)"

definition user_scores ::
  "leaderboard \<Rightarrow> user list \<Rightarrow> (nat \<Rightarrow> period_activity) \<Rightarrow> db \<Rightarrow> (user \<times> rat) list" where
  "user_scores self users activity d =
     filter (\<lambda>p. snd p > 0)
       (map (\<lambda>u. (u, user_score self activity d (user_id u))) users)"

text \<open>\<open>list.sort(key=lambda x: x[1], reverse=True)\<close>: descending, and stable.\<close>

definition sort_by_score_desc :: "(user \<times> rat) list \<Rightarrow> (user \<times> rat) list" where
  "sort_by_score_desc xs = rev (sort_key snd (rev xs))"

text \<open>\<open>UserRanking.objects.create\<close>, with the reward that \<open>UserRanking.save\<close> fills in.\<close>

definition user_ranking_create :: "leaderboard \<Rightarrow> user \<Rightarrow> nat \<Rightarrow> rat \<Rightarrow> user_ranking" where
  "user_ranking_create self u pos sc =
     \<lparr>ur_user = user_id u, ur_position = pos, ur_score = sc, reward_claimed = False,
      reward_amount = (if pos = 1 then first_place_reward self
                       else if pos = 2 then second_place_reward self
                       else if pos = 3 then third_place_reward self
                       else 0)\<rparr>"

text \<open>
  \<open>update_rankings\<close> deletes the rankings of the leaderboard and creates the new ones;
  the result lists the rows of the leaderboard after the call, in creation order.
\<close>

definition update_rankings ::
  "leaderboard \<Rightarrow> user list \<Rightarrow> (nat \<Rightarrow> period_activity) \<Rightarrow> db \<Rightarrow> user_ranking list" where
  "update_rankings self rows activity d =
     map (\<lambda>(pos, (u, sc)). user_ranking_create self u pos sc)
       (enumerate 1
          (take (max_positions self)
             (sort_by_score_desc (user_scores self (students rows) activity d))))"

section \<open>Redemption (apps/rewards/views.py, models.py, serializers.py)\<close>

text \<open>
  The body of a redemption request as the serializer's fields deliver it: the integer
  \<open>reward_id\<close> (\<open>None\<close> when absent or not an integer) and the two optional strings,
  already trimmed; and the optional query parameters that \<open>get_queryset\<close> reads, already
  parsed. Times are numbers; \<open>now\<close> is the time of the request.
\<close>

record redemption_request =
  req_reward_id :: "int option"
  req_delivery_address :: "string option"
  req_delivery_phone :: "string option"

record query_params =
  qp_category :: "string option"
  qp_min_cost :: "int option"
  qp_max_cost :: "int option"

datatype redeem_message =
  NotAvailableMessage | InsufficientMessage | NoWalletMessage | LimitMessage nat
  | CanRedeemMessage

datatype response =
    HTTP_201_CREATED reward_redemption
  | HTTP_400_SERIALIZER_ERRORS
  | HTTP_400_CANNOT_REDEEM redeem_message
  | HTTP_400_EXCEPTION error
  | HTTP_403_FORBIDDEN
  | HTTP_404_NOT_FOUND

definition reward_is_available :: "reward \<Rightarrow> nat \<Rightarrow> bool" where
  "reward_is_available self now =
     (if \<not> rw_is_active self then False
      else if (case available_from self of None \<Rightarrow> False | Some t \<Rightarrow> now < t) then False
      else if (case available_until self of None \<Rightarrow> False | Some t \<Rightarrow> now > t) then False
      else if (case stock_quantity self of None \<Rightarrow> False | Some s \<Rightarrow> s \<le> 0) then False
      else True)"

definition user_redemptions :: "nat \<Rightarrow> nat \<Rightarrow> db \<Rightarrow> nat" where
  "user_redemptions pk u d =
     length (filter (\<lambda>r. rd_reward r = pk \<and> rd_user r = u) (redemptions d))"

definition can_redeem :: "reward \<Rightarrow> nat \<Rightarrow> nat \<Rightarrow> nat \<Rightarrow> db \<Rightarrow> bool \<times> redeem_message" where
  "can_redeem self pk u now d =
     (if \<not> reward_is_available self now then (False, NotAvailableMessage)
      else
        (case wallets d u of
           None \<Rightarrow> (False, NoWalletMessage)
         | Some wallet \<Rightarrow>
             if \<not> can_spend wallet (of_nat (fore_cost self)) then (False, InsufficientMessage)
             else
               (case max_per_user self of
                  None \<Rightarrow> (True, CanRedeemMessage)
                | Some m \<Rightarrow>
                    if m \<noteq> 0 \<and> user_redemptions pk u d \<ge> m then (False, LimitMessage m)
                    else (True, CanRedeemMessage))))"

text \<open>\<open>RedemptionRequestSerializer.is_valid\<close>: the field checks, \<open>validate_reward_id\<close>
  and, when these pass, \<open>validate\<close>.\<close>

definition serializer_is_valid :: "redemption_request \<Rightarrow> nat \<Rightarrow> db \<Rightarrow> bool" where
  "serializer_is_valid rq now d =
     (case req_reward_id rq of
        None \<Rightarrow> False
      | Some i \<Rightarrow>
          (case (if i < 0 then None else rewards d (nat i)) of
             None \<Rightarrow> False
           | Some r \<Rightarrow>
               reward_is_available r now
               \<and> (case req_delivery_address rq of None \<Rightarrow> True | Some a \<Rightarrow> length a \<le> 500)
               \<and> (case req_delivery_phone rq of None \<Rightarrow> True | Some p \<Rightarrow> length p \<le> 20)
               \<and> \<not> (requires_shipping r
                      \<and> (case req_delivery_address rq of None \<Rightarrow> True | Some a \<Rightarrow> a = []))))"

text \<open>\<open>get_object\<close>: the reward of the URL, looked up in \<open>get_queryset\<close>.\<close>

definition get_object :: "nat \<Rightarrow> query_params \<Rightarrow> db \<Rightarrow> reward option" where
  "get_object pk qp d =
     (case rewards d pk of
        None \<Rightarrow> None
      | Some r \<Rightarrow>
          if rw_is_active r
             \<and> (case qp_category qp of None \<Rightarrow> True | Some c \<Rightarrow> c = [] \<or> rw_category r = c)
             \<and> (case qp_min_cost qp of None \<Rightarrow> True | Some m \<Rightarrow> m \<le> int (fore_cost r))
             \<and> (case qp_max_cost qp of None \<Rightarrow> True | Some m \<Rightarrow> int (fore_cost r) \<le> m)
          then Some r else None)"

definition redemption_description :: "reward \<Rightarrow> string" where
  "redemption_description r = ''Canje de recompensa: '' @ rw_title r"

definition PENDING :: string where "PENDING = ''pending''"

text \<open>
  \<open>redeem\<close>. \<open>code\<close> is the redemption code that \<open>RewardRedemption.save\<close> draws. The
  writes that follow the checks are not enclosed in a transaction: an exception after
  the debit is answered with status 400 and leaves the earlier writes in place, which
  the model keeps as the database of those branches.
\<close>

definition redeem ::
  "user \<Rightarrow> nat \<Rightarrow> query_params \<Rightarrow> redemption_request \<Rightarrow> nat \<Rightarrow> string \<Rightarrow> db
     \<Rightarrow> response \<times> db" where
  "redeem request_user pk qp rq now code d =
     (if user_role request_user \<noteq> ''student'' then (HTTP_403_FORBIDDEN, d)
      else
        (case get_object pk qp d of
           None \<Rightarrow> (HTTP_404_NOT_FOUND, d)
         | Some reward \<Rightarrow>
             if \<not> serializer_is_valid rq now d then (HTTP_400_SERIALIZER_ERRORS, d)
             else
               (case can_redeem reward pk (user_id request_user) now d of
                  (False, message) \<Rightarrow> (HTTP_400_CANNOT_REDEEM message, d)
                | (True, _) \<Rightarrow>
                    (case wallets d (user_id request_user) of
                       None \<Rightarrow> (HTTP_400_EXCEPTION DoesNotExist, d)
                     | Some wallet \<Rightarrow>
                         (case spend_tokens wallet (of_nat (fore_cost reward))
                                 (redemption_description reward) REWARD_PURCHASE d of
                            (Inl e, _, d1) \<Rightarrow> (HTTP_400_EXCEPTION e, d1)
                          | (Inr _, _, d1) \<Rightarrow>
                              let redemption =
                                    \<lparr>rd_user = user_id request_user, rd_reward = pk,
                                     rd_fore_cost = fore_cost reward, rd_status = PENDING,
                                     delivery_address =
                                       (case req_delivery_address rq of None \<Rightarrow> [] | Some a \<Rightarrow> a),
                                     delivery_phone =
                                       (case req_delivery_phone rq of None \<Rightarrow> [] | Some p \<Rightarrow> p),
                                     redemption_code = code\<rparr>;
                                  d2 = d1\<lparr>redemptions := redemptions d1 @ [redemption]\<rparr>
                              in (case stock_quantity reward of
                                    Some 0 \<Rightarrow> (HTTP_400_EXCEPTION IntegrityError, d2)
                                  | Some (Suc s) \<Rightarrow>
                                      (HTTP_201_CREATED redemption,
                                       d2\<lparr>rewards := (rewards d2)(pk \<mapsto>
                                            reward\<lparr>total_redeemed := total_redeemed reward + 1,
                                                   stock_quantity := Some s\<rparr>)\<rparr>)
                                  | None \<Rightarrow>
                                      (HTTP_201_CREATED redemption,
                                       d2\<lparr>rewards := (rewards d2)(pk \<mapsto>
                                            reward\<lparr>total_redeemed := total_redeemed reward + 1\<rparr>)\<rparr>)))))))"

text \<open>
  The database after a successful redemption of \<open>reward\<close> (key \<open>pk\<close>) paid from
  \<open>wallet\<close>: the wallet debited by the cost, the debit recorded, the redemption row
  added, \<open>total_redeemed\<close> raised by one and a finite stock lowered by one.
\<close>

definition redeemed_db :: "nat \<Rightarrow> reward \<Rightarrow> fore_wallet \<Rightarrow> reward_redemption \<Rightarrow> db \<Rightarrow> db" where
  "redeemed_db pk reward wallet rd d =
     d\<lparr>wallets := (wallets d)(w_user wallet \<mapsto>
            wallet\<lparr>balance := balance wallet - of_nat (fore_cost reward),
                   total_spent := total_spent wallet + of_nat (fore_cost reward)\<rparr>),
       transactions := transactions d @
            [\<lparr>t_user = w_user wallet, transaction_type = REWARD_PURCHASE,
              amount = - of_nat (fore_cost reward),
              balance_after = balance wallet - of_nat (fore_cost reward),
              description = redemption_description reward,
              related_course = None, related_lesson = None, related_quiz = None,
              related_achievement = None\<rparr>],
       redemptions := redemptions d @ [rd],
       rewards := (rewards d)(pk \<mapsto>
            reward\<lparr>total_redeemed := total_redeemed reward + 1,
                   stock_quantity := (case stock_quantity reward of
                                        None \<Rightarrow> None | Some s \<Rightarrow> Some (s - 1))\<rparr>)\<rparr>"

section \<open>Sample data\<close>

definition no_stats :: user_stats where
  "no_stats = \<lparr>completed_courses = 0, completed_lessons = 0, passed_quizzes = 0\<rparr>"

definition demo_db :: db where
  "demo_db = \<lparr>wallets = Map.empty(1 \<mapsto> new_wallet 1), transactions = [],
              achievements = [], user_achievements = [], stats = (\<lambda>_. no_stats),
              rewards = Map.empty, redemptions = []\<rparr>"

definition demo_ops :: "ledger_op list" where
  "demo_ops = [Credit 1 100 ''Leccion 1'' LESSON_COMPLETED,
               Debit 1 30 ''Canje'' REWARD_PURCHASE]"

text \<open>
  \<open>constancia\<close> is the streak achievement of \<open>create_initial_achievements\<close>;
  \<open>participacion\<close> is an achievement that awards no tokens.
\<close>

definition constancia :: achievement where
  "constancia = \<lparr>ach_id = 8, ach_title = ''Constancia'', fore_tokens_reward = 75,
                 required_courses = 0, required_lessons = 0, required_quizzes = 0,
                 required_streak_days = 7, required_fore_tokens = 0,
                 ach_is_active = True, max_recipients = None\<rparr>"

definition participacion :: achievement where
  "participacion = \<lparr>ach_id = 3, ach_title = ''Participacion'', fore_tokens_reward = 0,
                    required_courses = 0, required_lessons = 0, required_quizzes = 0,
                    required_streak_days = 0, required_fore_tokens = 0,
                    ach_is_active = True, max_recipients = None\<rparr>"

definition primer_paso :: achievement where
  "primer_paso = \<lparr>ach_id = 1, ach_title = ''Primer Paso'', fore_tokens_reward = 10,
                  required_courses = 0, required_lessons = 1, required_quizzes = 0,
                  required_streak_days = 0, required_fore_tokens = 0,
                  ach_is_active = True, max_recipients = None\<rparr>"

definition ahorrador :: achievement where
  "ahorrador = \<lparr>ach_id = 2, ach_title = ''Ahorrador'', fore_tokens_reward = 5,
                required_courses = 0, required_lessons = 0, required_quizzes = 0,
                required_streak_days = 0, required_fore_tokens = 10,
                ach_is_active = True, max_recipients = None\<rparr>"

definition manual_check :: progress where
  "manual_check = \<lparr>activity_type = ''manual_check'', total_courses = 0,
                   total_lessons = 0, total_quizzes = 0\<rparr>"

definition cascade_db :: db where
  "cascade_db = demo_db\<lparr>achievements := [ahorrador, primer_paso],
                        stats := (\<lambda>_. no_stats\<lparr>completed_lessons := 1\<rparr>)\<rparr>"

definition coleccionista :: achievement where
  "coleccionista = \<lparr>ach_id = 11, ach_title = ''Coleccionista FORE'', fore_tokens_reward = 100,
                    required_courses = 0, required_lessons = 0, required_quizzes = 0,
                    required_streak_days = 0, required_fore_tokens = 1000,
                    ach_is_active = True, max_recipients = None\<rparr>"

definition rerun_db :: db where
  "rerun_db = demo_db\<lparr>achievements := [primer_paso, coleccionista],
                      stats := (\<lambda>_. no_stats\<lparr>completed_lessons := 1\<rparr>)\<rparr>"

definition one_lesson :: progress where
  "one_lesson = \<lparr>activity_type = ''manual_check'', total_courses = 0,
                 total_lessons = 1, total_quizzes = 0\<rparr>"









definition weekly_lessons :: leaderboard where
  "weekly_lessons = \<lparr>lb_category = LESSONS_COMPLETED, lb_period = WEEKLY, max_positions = 100,
                     first_place_reward = 100, second_place_reward = 75,
                     third_place_reward = 50\<rparr>"

definition ana :: user where
  "ana = \<lparr>user_id = 1, user_role = ''student'', user_is_active = True, user_created_at = 5\<rparr>"

definition beto :: user where
  "beto = \<lparr>user_id = 2, user_role = ''student'', user_is_active = True, user_created_at = 5\<rparr>"

definition carla :: user where
  "carla = \<lparr>user_id = 3, user_role = ''student'', user_is_active = True, user_created_at = 7\<rparr>"

definition three_lessons :: "nat \<Rightarrow> period_activity" where
  "three_lessons = (\<lambda>_. \<lparr>pa_tokens_earned = 0, pa_courses = 0, pa_lessons = 3,
                         pa_quizzes = 0, pa_achievements = 0\<rparr>)"

definition taza :: reward where
  "taza = \<lparr>rw_title = ''Taza'', rw_category = ''physical'', fore_cost = 30,
           rw_is_active = True, stock_quantity = Some 1, max_per_user = Some 1,
           available_from = None, available_until = None, requires_shipping = True,
           total_redeemed = 0\<rparr>"

definition shop_db :: db where
  "shop_db = demo_db\<lparr>wallets := Map.empty(1 \<mapsto>
                 \<lparr>w_user = 1, balance = 100, total_earned = 100, total_spent = 0,
                  frozen_amount = 0\<rparr>),
               rewards := Map.empty(7 \<mapsto> taza)\<rparr>"

definition taza_request :: redemption_request where
  "taza_request = \<lparr>req_reward_id = Some 7, req_delivery_address = Some ''Calle 1'',
                   req_delivery_phone = None\<rparr>"

definition no_params :: query_params where
  "no_params = \<lparr>qp_category = None, qp_min_cost = None, qp_max_cost = None\<rparr>"

section \<open>Properties\<close>

subsection \<open>The ledger\<close>

lemma run_ledger_ops_append:
  "run_ledger_ops (xs @ ys) d =
     (case run_ledger_ops xs d of Inl e \<Rightarrow> Inl e | Inr d' \<Rightarrow> run_ledger_ops ys d')"
  by (induction xs arbitrary: d) (auto split: sum.splits)

lemma run_ledger_ops_prefix:
  assumes "run_ledger_ops ops d = Inr d'" and "n \<le> length ops"
  shows "\<exists>dn. run_ledger_ops (take n ops) d = Inr dn"
proof -
  have "run_ledger_ops (take n ops @ drop n ops) d = Inr d'"
    using assms by simp
  then show ?thesis
    unfolding run_ledger_ops_append by (auto split: sum.splits)
qed

lemma chain_from_snoc:
  "chain_from b (ts @ [t]) =
     (chain_from b ts \<and> balance_after t = closing_balance b ts + amount t)"
  by (induction ts arbitrary: b) auto

lemma closing_balance_snoc: "closing_balance b (ts @ [t]) = balance_after t"
  by (induction ts arbitrary: b) auto



lemma ledger_inv_fresh:
  assumes "fresh_ledger d"
  shows "ledger_inv [] d"
  unfolding ledger_inv_def
proof
  fix u
  from assms have tx: "transactions d = []"
    and fw: "\<And>w. wallets d u = Some w \<Longrightarrow> w = new_wallet u"
    by (auto simp: fresh_ledger_def)
  show "ledger_inv_at u [] d"
  proof (cases "wallets d u")
    case None
    with tx show ?thesis by (simp add: ledger_inv_at_def user_transactions_def)
  next
    case (Some w)
    then have "w = new_wallet u" by (rule fw)
    with tx Some show ?thesis
      by (simp add: ledger_inv_at_def user_transactions_def new_wallet_def)
  qed
qed

lemma apply_credit_Inr:
  assumes "apply_ledger_op (Credit v amt descr ttype) d = Inr d'"
  obtains w where "wallets d v = Some w" and "0 < amt"
    and "d' = d\<lparr>wallets := (wallets d)(w_user w \<mapsto>
                     w\<lparr>balance := balance w + amt, total_earned := total_earned w + amt\<rparr>),
                transactions := transactions d @
                  [\<lparr>t_user = w_user w, transaction_type = ttype, amount = amt,
                    balance_after = balance w + amt, description = descr,
                    related_course = None, related_lesson = None,
                    related_quiz = None, related_achievement = None\<rparr>]\<rparr>"
proof (cases "wallets d v")
  case None
  with assms show ?thesis by simp
next
  case (Some w)
  with assms have pos: "0 < amt"
    by (cases "amt \<le> 0") (simp_all add: add_tokens_def)
  with assms Some have "d' = d\<lparr>wallets := (wallets d)(w_user w \<mapsto>
                     w\<lparr>balance := balance w + amt, total_earned := total_earned w + amt\<rparr>),
                transactions := transactions d @
                  [\<lparr>t_user = w_user w, transaction_type = ttype, amount = amt,
                    balance_after = balance w + amt, description = descr,
                    related_course = None, related_lesson = None,
                    related_quiz = None, related_achievement = None\<rparr>]\<rparr>"
    by (simp add: add_tokens_def Let_def wallet_save_def transaction_create_def)
  with Some pos show ?thesis by (rule that)
qed

lemma apply_debit_Inr:
  assumes "apply_ledger_op (Debit v amt descr ttype) d = Inr d'"
  obtains w where "wallets d v = Some w" and "can_spend w amt"
    and "d' = d\<lparr>wallets := (wallets d)(w_user w \<mapsto>
                     w\<lparr>balance := balance w - amt, total_spent := total_spent w + amt\<rparr>),
                transactions := transactions d @
                  [\<lparr>t_user = w_user w, transaction_type = ttype, amount = - amt,
                    balance_after = balance w - amt, description = descr,
                    related_course = None, related_lesson = None,
                    related_quiz = None, related_achievement = None\<rparr>]\<rparr>"
proof (cases "wallets d v")
  case None
  with assms show ?thesis by simp
next
  case (Some w)
  with assms have ok: "can_spend w amt"
    by (cases "can_spend w amt") (simp_all add: spend_tokens_def)
  with assms Some have "d' = d\<lparr>wallets := (wallets d)(w_user w \<mapsto>
                     w\<lparr>balance := balance w - amt, total_spent := total_spent w + amt\<rparr>),
                transactions := transactions d @
                  [\<lparr>t_user = w_user w, transaction_type = ttype, amount = - amt,
                    balance_after = balance w - amt, description = descr,
                    related_course = None, related_lesson = None,
                    related_quiz = None, related_achievement = None\<rparr>]\<rparr>"
    by (simp add: spend_tokens_def Let_def wallet_save_def transaction_create_def)
  with Some ok show ?thesis by (rule that)
qed

lemma ledger_inv_alt: "ledger_inv ops d = (\<forall>u. ledger_inv_at u ops d)"
  by (simp add: ledger_inv_def)

lemma ledger_inv_step:
  assumes inv: "ledger_inv ops d" and step: "apply_ledger_op op d = Inr d'"
  shows "ledger_inv (ops @ [op]) d'"
  unfolding ledger_inv_alt
proof
  fix u
  from inv have iu: "ledger_inv_at u ops d" by (simp add: ledger_inv_alt)
  show "ledger_inv_at u (ops @ [op]) d'"
  proof (cases op)
    case (Credit v amt descr ttype)
    from step[unfolded Credit] obtain w where w: "wallets d v = Some w" and pos: "0 < amt"
      and d': "d' = d\<lparr>wallets := (wallets d)(w_user w \<mapsto>
                     w\<lparr>balance := balance w + amt, total_earned := total_earned w + amt\<rparr>),
                transactions := transactions d @
                  [\<lparr>t_user = w_user w, transaction_type = ttype, amount = amt,
                    balance_after = balance w + amt, description = descr,
                    related_course = None, related_lesson = None,
                    related_quiz = None, related_achievement = None\<rparr>]\<rparr>"
      by (rule apply_credit_Inr)
    from inv w have wu: "w_user w = v"
      by (auto simp: ledger_inv_alt ledger_inv_at_def dest!: spec[of _ v])
    show ?thesis
    proof (cases "u = v")
      case True
      with iu w wu show ?thesis
        by (simp add: ledger_inv_at_def d' Credit user_transactions_def
            chain_from_snoc closing_balance_snoc)
    next
      case False
      with iu w wu show ?thesis
        by (simp add: ledger_inv_at_def d' Credit user_transactions_def split: option.splits)
    qed
  next
    case (Debit v amt descr ttype)
    from step[unfolded Debit] obtain w where w: "wallets d v = Some w"
      and d': "d' = d\<lparr>wallets := (wallets d)(w_user w \<mapsto>
                     w\<lparr>balance := balance w - amt, total_spent := total_spent w + amt\<rparr>),
                transactions := transactions d @
                  [\<lparr>t_user = w_user w, transaction_type = ttype, amount = - amt,
                    balance_after = balance w - amt, description = descr,
                    related_course = None, related_lesson = None,
                    related_quiz = None, related_achievement = None\<rparr>]\<rparr>"
      by (rule apply_debit_Inr)
    from inv w have wu: "w_user w = v"
      by (auto simp: ledger_inv_alt ledger_inv_at_def dest!: spec[of _ v])
    show ?thesis
    proof (cases "u = v")
      case True
      with iu w wu show ?thesis
        by (simp add: ledger_inv_at_def d' Debit user_transactions_def
            chain_from_snoc closing_balance_snoc)
    next
      case False
      with iu w wu show ?thesis
        by (simp add: ledger_inv_at_def d' Debit user_transactions_def split: option.splits)
    qed
  qed
qed

lemma ledger_inv_run:
  "ledger_inv [] d0 \<Longrightarrow> run_ledger_ops ops d0 = Inr d \<Longrightarrow> ledger_inv ops d"
proof (induction ops arbitrary: d rule: rev_induct)
  case Nil
  then show ?case by simp
next
  case (snoc op ops)
  from snoc.prems(2) obtain dm where dm: "run_ledger_ops ops d0 = Inr dm"
    and st: "apply_ledger_op op dm = Inr d"
    by (auto simp: run_ledger_ops_append split: sum.splits)
  from snoc.IH[OF snoc.prems(1) dm] st show ?case by (rule ledger_inv_step)
qed

lemma ledger_inv_reached:
  assumes "fresh_ledger d0" and "run_ledger_ops ops d0 = Inr d" and "n \<le> length ops"
  shows "\<exists>dn. run_ledger_ops (take n ops) d0 = Inr dn \<and> ledger_inv (take n ops) dn"
proof -
  from assms(2,3) obtain dn where dn: "run_ledger_ops (take n ops) d0 = Inr dn"
    using run_ledger_ops_prefix by blast
  from assms(1) have "ledger_inv [] d0" by (rule ledger_inv_fresh)
  from this dn have "ledger_inv (take n ops) dn" by (rule ledger_inv_run)
  with dn show ?thesis by blast
qed

lemma run_ledger_ops_log:
  "run_ledger_ops ops d0 = Inr d \<Longrightarrow> \<exists>ts. transactions d = transactions d0 @ ts \<and> length ts = length ops"
proof (induction ops arbitrary: d rule: rev_induct)
  case Nil
  then show ?case by simp
next
  case (snoc op ops)
  from snoc.prems obtain dm where dm: "run_ledger_ops ops d0 = Inr dm"
    and st: "apply_ledger_op op dm = Inr d"
    by (auto simp: run_ledger_ops_append split: sum.splits)
  from snoc.IH[OF dm] obtain ts where ts: "transactions dm = transactions d0 @ ts"
    "length ts = length ops" by blast
  have "\<exists>t. transactions d = transactions dm @ [t]"
  proof (cases op)
    case (Credit v amt descr ttype)
    from st[unfolded Credit] show ?thesis by (rule apply_credit_Inr) simp
  next
    case (Debit v amt descr ttype)
    from st[unfolded Debit] show ?thesis by (rule apply_debit_Inr) simp
  qed
  then obtain t where "transactions d = transactions dm @ [t]" ..
  with ts have "transactions d = transactions d0 @ (ts @ [t]) \<and> length (ts @ [t]) = length (ops @ [op])"
    by simp
  then show ?case by blast
qed

lemma run_ledger_ops_log_prefix:
  assumes "run_ledger_ops ops d0 = Inr d" and "transactions d0 = []" and "n \<le> length ops"
    and "run_ledger_ops (take n ops) d0 = Inr dn"
  shows "transactions dn = take n (transactions d)"
proof -
  have "run_ledger_ops (take n ops @ drop n ops) d0 = Inr d" using assms(1) by simp
  then have rest: "run_ledger_ops (drop n ops) dn = Inr d"
    unfolding run_ledger_ops_append using assms(4) by simp
  from run_ledger_ops_log[OF assms(4)] assms(2,3) have len: "length (transactions dn) = n"
    by auto
  from run_ledger_ops_log[OF rest] obtain ts where "transactions d = transactions dn @ ts"
    by blast
  with len show ?thesis by simp
qed

subsection \<open>Values that fit the columns\<close>

lemma whole_cents_Ints: "whole_cents v = (v * 100 \<in> \<int>)"
  unfolding whole_cents_def by (metis Ints_of_int of_int_floor_cancel Ints_cases)

lemma whole_cents_simps [simp]:
  "whole_cents 0"
  "whole_cents a \<Longrightarrow> whole_cents b \<Longrightarrow> whole_cents (a + b)"
  "whole_cents a \<Longrightarrow> whole_cents b \<Longrightarrow> whole_cents (a - b)"
  "whole_cents a \<Longrightarrow> whole_cents (- a)"
  "whole_cents (of_nat n)"
  by (simp_all add: whole_cents_Ints algebra_simps)

lemma value_within_mono: "value_within s v \<Longrightarrow> s \<le> s' \<Longrightarrow> value_within s' v"
  by (simp add: value_within_def)

lemma value_within_add:
  "value_within s v \<Longrightarrow> whole_cents a \<Longrightarrow> value_within (s + \<bar>a\<bar>) (v + a)"
  "value_within s v \<Longrightarrow> whole_cents a \<Longrightarrow> value_within (s + \<bar>a\<bar>) (v - a)"
  by (auto simp: value_within_def)

lemma value_within_amount:
  "0 \<le> s \<Longrightarrow> whole_cents a \<Longrightarrow> value_within (s + \<bar>a\<bar>) a"
  "0 \<le> s \<Longrightarrow> whole_cents a \<Longrightarrow> value_within (s + \<bar>a\<bar>) (- a)"
  by (auto simp: value_within_def)

lemma fits_within_mono:
  assumes "fits_within s d" and "s \<le> s'"
  shows "fits_within s' d"
proof -
  have m: "value_within s v \<Longrightarrow> value_within s' v" for v
    using assms(2) by (rule value_within_mono[rotated])
  from assms(1) show ?thesis
    unfolding fits_within_def list_all_iff using m by blast
qed

lemma fits_within_fresh:
  assumes "fresh_ledger d"
  shows "fits_within 0 d"
proof -
  from assms have w: "\<And>u w. wallets d u = Some w \<Longrightarrow> w = new_wallet u"
    and t: "transactions d = []"
    unfolding fresh_ledger_def by blast+
  have "value_within 0 (balance w) \<and> value_within 0 (total_earned w)
          \<and> value_within 0 (total_spent w) \<and> value_within 0 (frozen_amount w)"
    if "wallets d u = Some w" for u w
    using w[OF that] by (simp add: value_within_def new_wallet_def)
  with t show ?thesis by (simp add: fits_within_def)
qed

lemma fits_within_step:
  assumes f: "fits_within s d" and s: "0 \<le> s" and c: "whole_cents (op_amount op)"
    and st: "apply_ledger_op op d = Inr d'"
  shows "fits_within (s + \<bar>op_amount op\<bar>) d'"
proof -
  let ?s = "s + \<bar>op_amount op\<bar>"
  have le: "s \<le> ?s" by simp
  from f le have f': "fits_within ?s d" by (rule fits_within_mono)
  then have ws: "\<And>u w. wallets d u = Some w \<Longrightarrow>
          value_within ?s (balance w) \<and> value_within ?s (total_earned w)
          \<and> value_within ?s (total_spent w) \<and> value_within ?s (frozen_amount w)"
    and ts: "list_all (\<lambda>t. value_within ?s (amount t) \<and> value_within ?s (balance_after t))
            (transactions d)"
    unfolding fits_within_def by blast+
  show ?thesis
  proof (cases op)
    case (Credit v amt descr ttype)
    from st[unfolded Credit] obtain w where w: "wallets d v = Some w"
      and d': "d' = d\<lparr>wallets := (wallets d)(w_user w \<mapsto>
                     w\<lparr>balance := balance w + amt, total_earned := total_earned w + amt\<rparr>),
                transactions := transactions d @
                  [\<lparr>t_user = w_user w, transaction_type = ttype, amount = amt,
                    balance_after = balance w + amt, description = descr,
                    related_course = None, related_lesson = None,
                    related_quiz = None, related_achievement = None\<rparr>]\<rparr>"
      by (rule apply_credit_Inr)
    from c Credit have ca: "whole_cents amt" by simp
    from f w have fw: "value_within s (balance w)" "value_within s (total_earned w)"
      unfolding fits_within_def by blast+
    have n: "value_within (s + \<bar>amt\<bar>) (balance w + amt)"
      "value_within (s + \<bar>amt\<bar>) (total_earned w + amt)"
      "value_within (s + \<bar>amt\<bar>) amt"
      using fw ca s by (simp_all add: value_within_add value_within_amount)
    from ws[OF w] ws ts n show ?thesis
      unfolding fits_within_def d' Credit by (auto split: if_splits)
  next
    case (Debit v amt descr ttype)
    from st[unfolded Debit] obtain w where w: "wallets d v = Some w"
      and d': "d' = d\<lparr>wallets := (wallets d)(w_user w \<mapsto>
                     w\<lparr>balance := balance w - amt, total_spent := total_spent w + amt\<rparr>),
                transactions := transactions d @
                  [\<lparr>t_user = w_user w, transaction_type = ttype, amount = - amt,
                    balance_after = balance w - amt, description = descr,
                    related_course = None, related_lesson = None,
                    related_quiz = None, related_achievement = None\<rparr>]\<rparr>"
      by (rule apply_debit_Inr)
    from c Debit have ca: "whole_cents amt" by simp
    from f w have fw: "value_within s (balance w)" "value_within s (total_spent w)"
      unfolding fits_within_def by blast+
    have n: "value_within (s + \<bar>amt\<bar>) (balance w - amt)"
      "value_within (s + \<bar>amt\<bar>) (total_spent w + amt)"
      "value_within (s + \<bar>amt\<bar>) (- amt)"
      using fw ca s by (simp_all add: value_within_add value_within_amount)
    from ws[OF w] ws ts n show ?thesis
      unfolding fits_within_def d' Debit by (auto split: if_splits)
  qed
qed

lemma fits_within_run:
  "fits_within s d0 \<Longrightarrow> 0 \<le> s \<Longrightarrow> list_all (\<lambda>op. whole_cents (op_amount op)) ops \<Longrightarrow>
   run_ledger_ops ops d0 = Inr d \<Longrightarrow>
   fits_within (s + sum_list (map (\<lambda>op. \<bar>op_amount op\<bar>) ops)) d"
proof (induction ops arbitrary: d0 s)
  case Nil
  then show ?case by simp
next
  case (Cons op ops)
  from Cons.prems(4) obtain d1 where d1: "apply_ledger_op op d0 = Inr d1"
    and r: "run_ledger_ops ops d1 = Inr d"
    by (auto split: sum.splits)
  from Cons.prems(3) have c: "whole_cents (op_amount op)"
    and cs: "list_all (\<lambda>op. whole_cents (op_amount op)) ops" by simp_all
  have f1: "fits_within (s + \<bar>op_amount op\<bar>) d1"
    using Cons.prems(1,2) c d1 by (rule fits_within_step)
  have "0 \<le> s + \<bar>op_amount op\<bar>" using Cons.prems(2) by simp
  from Cons.IH[OF f1 this cs r] show ?case by (simp add: add.assoc)
qed

lemma sum_abs_take:
  "sum_list (map (\<lambda>op. \<bar>op_amount op\<bar>) (take n ops)) \<le> sum_list (map (\<lambda>op. \<bar>op_amount op\<bar>) ops)"
proof -
  have "sum_list (map (\<lambda>op. \<bar>op_amount op\<bar>) (take n ops @ drop n ops))
        = sum_list (map (\<lambda>op. \<bar>op_amount op\<bar>) (take n ops))
          + sum_list (map (\<lambda>op. \<bar>op_amount op\<bar>) (drop n ops))"
    unfolding map_append sum_list_append ..
  moreover have "0 \<le> sum_list (map (\<lambda>op. \<bar>op_amount op\<bar>) (drop n ops))"
    by (rule sum_list_nonneg) auto
  ultimately show ?thesis by simp
qed

lemma fits_within_columns:
  assumes "fits_within s d" and "s < 10 ^ 10"
  shows "columns_fit d"
proof -
  have m: "value_within s v \<Longrightarrow> numeric_12_2 v" for v
    using assms(2) by (simp add: value_within_def numeric_12_2_def)
  from assms(1) show ?thesis
    unfolding fits_within_def columns_fit_def wallet_fits_def list_all_iff using m by blast
qed

lemma amounts_fit_columns:
  assumes "fresh_ledger d0" and "amounts_fit ops" and "run_ledger_ops (take n ops) d0 = Inr dn"
  shows "columns_fit dn"
proof -
  from assms(2) have c: "list_all (\<lambda>op. whole_cents (op_amount op)) (take n ops)"
    and b: "sum_list (map (\<lambda>op. \<bar>op_amount op\<bar>) ops) < 10 ^ 10"
    by (auto simp: amounts_fit_def list_all_iff dest: in_set_takeD)
  from fits_within_run[OF fits_within_fresh[OF assms(1)] _ c assms(3)]
  have "fits_within (sum_list (map (\<lambda>op. \<bar>op_amount op\<bar>) (take n ops))) dn" by simp
  moreover from sum_abs_take[of n ops] b
  have "sum_list (map (\<lambda>op. \<bar>op_amount op\<bar>) (take n ops)) < 10 ^ 10" by simp
  ultimately show ?thesis by (rule fits_within_columns)
qed

text \<open>
  C2. Starting from wallets as created and an empty transaction log, if a sequence of
  credits and debits whose amounts fit the columns runs without an operation raising,
  then after each of its operations every value stored fits its column, and every wallet
  has balance = total_earned - total_spent and a balance equal to the sum of the amounts
  credited to its user minus the sum of the amounts debited; the state after the last
  operation is the case n = length ops.
\<close>

theorem balance_conservation:
  assumes "fresh_ledger d0" and "amounts_fit ops" and "run_ledger_ops ops d0 = Inr d"
  shows "\<forall>n\<le>length ops. \<exists>dn. run_ledger_ops (take n ops) d0 = Inr dn \<and> columns_fit dn \<and>
           (\<forall>u w. wallets dn u = Some w \<longrightarrow>
              balance w = total_earned w - total_spent w \<and>
              balance w = sum_list (map (credited u) (take n ops))
                          - sum_list (map (debited u) (take n ops)))"
proof (intro allI impI)
  fix n assume "n \<le> length ops"
  with assms obtain dn where dn: "run_ledger_ops (take n ops) d0 = Inr dn"
    and inv: "ledger_inv (take n ops) dn"
    using ledger_inv_reached by blast
  from assms(1,2) dn have fit: "columns_fit dn" by (rule amounts_fit_columns)
  have "\<forall>u w. wallets dn u = Some w \<longrightarrow>
              balance w = total_earned w - total_spent w \<and>
              balance w = sum_list (map (credited u) (take n ops))
                          - sum_list (map (debited u) (take n ops))"
  proof (intro allI impI)
    fix u w assume w: "wallets dn u = Some w"
    from inv have "ledger_inv_at u (take n ops) dn" by (simp add: ledger_inv_alt)
    with w show "balance w = total_earned w - total_spent w \<and>
              balance w = sum_list (map (credited u) (take n ops))
                          - sum_list (map (debited u) (take n ops))"
      by (simp add: ledger_inv_at_def)
  qed
  with dn fit show "\<exists>dn. run_ledger_ops (take n ops) d0 = Inr dn \<and> columns_fit dn \<and>
           (\<forall>u w. wallets dn u = Some w \<longrightarrow>
              balance w = total_earned w - total_spent w \<and>
              balance w = sum_list (map (credited u) (take n ops))
                          - sum_list (map (debited u) (take n ops)))"
    by blast
qed


theorem balance_conservation_witness:
  "fresh_ledger demo_db
   \<and> amounts_fit demo_ops
   \<and> run_ledger_ops demo_ops demo_db =
       Inr (demo_db\<lparr>wallets := Map.empty(1 \<mapsto>
                \<lparr>w_user = 1, balance = 70, total_earned = 100, total_spent = 30,
                 frozen_amount = 0\<rparr>),
              transactions :=
                [\<lparr>t_user = 1, transaction_type = LESSON_COMPLETED, amount = 100,
                  balance_after = 100, description = ''Leccion 1'', related_course = None,
                  related_lesson = None, related_quiz = None, related_achievement = None\<rparr>,
                 \<lparr>t_user = 1, transaction_type = REWARD_PURCHASE, amount = - 30,
                  balance_after = 70, description = ''Canje'', related_course = None,
                  related_lesson = None, related_quiz = None, related_achievement = None\<rparr>]\<rparr>)
   \<and> (\<exists>dn. run_ledger_ops (take 1 demo_ops) demo_db = Inr dn \<and> columns_fit dn \<and>
           (\<forall>u w. wallets dn u = Some w \<longrightarrow>
              balance w = total_earned w - total_spent w \<and>
              balance w = sum_list (map (credited u) (take 1 demo_ops))
                          - sum_list (map (debited u) (take 1 demo_ops))))"
proof -
  have f: "fresh_ledger demo_db"
    by (auto simp: fresh_ledger_def demo_db_def split: if_splits)
  have a: "amounts_fit demo_ops"
    by (simp add: amounts_fit_def demo_ops_def whole_cents_def)
  have r: "run_ledger_ops demo_ops demo_db =
       Inr (demo_db\<lparr>wallets := Map.empty(1 \<mapsto>
                \<lparr>w_user = 1, balance = 70, total_earned = 100, total_spent = 30,
                 frozen_amount = 0\<rparr>),
              transactions :=
                [\<lparr>t_user = 1, transaction_type = LESSON_COMPLETED, amount = 100,
                  balance_after = 100, description = ''Leccion 1'', related_course = None,
                  related_lesson = None, related_quiz = None, related_achievement = None\<rparr>,
                 \<lparr>t_user = 1, transaction_type = REWARD_PURCHASE, amount = - 30,
                  balance_after = 70, description = ''Canje'', related_course = None,
                  related_lesson = None, related_quiz = None, related_achievement = None\<rparr>]\<rparr>)"
    by (simp add: demo_ops_def demo_db_def add_tokens_def spend_tokens_def Let_def
        can_spend_def available_balance_def wallet_save_def transaction_create_def
        new_wallet_def)
  have "(1::nat) \<le> length demo_ops" by (simp add: demo_ops_def)
  with balance_conservation[OF f a r]
  have "\<exists>dn. run_ledger_ops (take 1 demo_ops) demo_db = Inr dn \<and> columns_fit dn \<and>
           (\<forall>u w. wallets dn u = Some w \<longrightarrow>
              balance w = total_earned w - total_spent w \<and>
              balance w = sum_list (map (credited u) (take 1 demo_ops))
                          - sum_list (map (debited u) (take 1 demo_ops)))"
    by blast
  with f a r show ?thesis by blast
qed

text \<open>
  C4. A debit of more than the available balance (balance - frozen_amount) raises the
  insufficient-balance error and leaves the wallet instance and the whole database,
  hence balance, total_earned, total_spent and the transaction log, as they were.
\<close>

theorem debit_rejects_overdraft:
  assumes "amt > available_balance self"
  shows "spend_tokens self amt descr ttype d = (Inl InsufficientBalance, self, d)"
  using assms by (simp add: spend_tokens_def can_spend_def InsufficientBalance_def)

theorem debit_rejects_overdraft_witness:
  "(1000::rat) > available_balance
       \<lparr>w_user = 1, balance = 70, total_earned = 100, total_spent = 30, frozen_amount = 0\<rparr>
   \<and> spend_tokens
       \<lparr>w_user = 1, balance = 70, total_earned = 100, total_spent = 30, frozen_amount = 0\<rparr>
       1000 ''Canje'' REWARD_PURCHASE demo_db =
     (Inl InsufficientBalance,
      \<lparr>w_user = 1, balance = 70, total_earned = 100, total_spent = 30, frozen_amount = 0\<rparr>,
      demo_db)"
proof -
  have h: "(1000::rat) > available_balance
       \<lparr>w_user = 1, balance = 70, total_earned = 100, total_spent = 30, frozen_amount = 0\<rparr>"
    by (simp add: available_balance_def)
  from debit_rejects_overdraft[OF h] h show ?thesis by blast
qed

lemma add_tokens_rejects_nonpositive:
  "amt \<le> 0 \<Longrightarrow> add_tokens self amt descr ttype d = (Inl InvalidAmount, self, d)"
  by (simp add: add_tokens_def InvalidAmount_def)

text \<open>
  C5. \<open>spend_tokens\<close> has no check of the sign of the amount. A debit of 0 from a new
  wallet returns normally and appends a transaction of amount 0; a debit of -5 returns
  normally, raises the balance to 5, lowers total_spent to -5 and appends a transaction
  of amount +5. Neither raises the invalid-amount error that \<open>add_tokens\<close> raises.
\<close>

theorem spend_tokens_accepts_nonpositive:
  "spend_tokens (new_wallet 1) 0 descr ttype d =
     (Inr 0, new_wallet 1,
      d\<lparr>wallets := (wallets d)(1 \<mapsto> new_wallet 1),
        transactions := transactions d @
          [\<lparr>t_user = 1, transaction_type = ttype, amount = 0, balance_after = 0,
            description = descr, related_course = None, related_lesson = None,
            related_quiz = None, related_achievement = None\<rparr>]\<rparr>)
   \<and> spend_tokens (new_wallet 1) (- 5) descr ttype d =
     (Inr 5, \<lparr>w_user = 1, balance = 5, total_earned = 0, total_spent = - 5, frozen_amount = 0\<rparr>,
      d\<lparr>wallets := (wallets d)(1 \<mapsto>
            \<lparr>w_user = 1, balance = 5, total_earned = 0, total_spent = - 5, frozen_amount = 0\<rparr>),
        transactions := transactions d @
          [\<lparr>t_user = 1, transaction_type = ttype, amount = 5, balance_after = 5,
            description = descr, related_course = None, related_lesson = None,
            related_quiz = None, related_achievement = None\<rparr>]\<rparr>)"
  by (simp add: spend_tokens_def can_spend_def available_balance_def new_wallet_def
      wallet_save_def transaction_create_def Let_def)

subsection \<open>Eligibility and grants\<close>

lemma check_achievement_iff_without_streak:
  assumes "\<not> has_achievement u a d" and "is_available a d" and "required_streak_days a = 0"
  shows "check_achievement a u d = every_declared_threshold_met a (current_stats u streak d)"
  using assms
  by (cases "wallets d u")
     (auto simp: check_achievement_def every_declared_threshold_met_def current_stats_def)

text \<open>
  C6. The code never tests \<open>required_streak_days\<close>. For the active, available, not yet
  granted achievement \<open>constancia\<close> (seven streak days required, nothing else) and a
  user without any activity and a streak of 0 days, \<open>check_achievement\<close> returns True,
  although the declared streak threshold is not met.
\<close>

theorem check_achievement_ignores_streak:
  "ach_is_active constancia
   \<and> is_available constancia demo_db
   \<and> \<not> has_achievement 1 constancia demo_db
   \<and> check_achievement constancia 1 demo_db
   \<and> \<not> every_declared_threshold_met constancia (current_stats 1 0 demo_db)"
  by (simp add: constancia_def demo_db_def is_available_def has_achievement_def
      check_achievement_def every_declared_threshold_met_def current_stats_def no_stats_def)

lemma contains_self: "contains s s"
  by (cases s) auto

lemma contains_append_left: "contains (p @ s) s"
  by (induction p) (auto simp: contains_self)

text \<open>
  C7, as stated, fails. Granting \<open>participacion\<close> (token reward 0) to a user with a
  wallet inserts the row, then \<open>add_tokens\<close> raises on the amount 0 and no transaction
  is recorded. Granting \<open>primer_paso\<close> (token reward 10) to a user without a wallet
  inserts the row and creates an empty wallet, again without any transaction.
\<close>

theorem achievement_grant_not_always_credited:
  "check_achievement participacion 1 demo_db
   \<and> user_achievement_create 1 participacion manual_check demo_db =
       (Inl InvalidAmount,
        demo_db\<lparr>user_achievements :=
          [\<lparr>ua_user = 1, ua_achievement = 3, fore_tokens_awarded = 0,
            progress_when_earned = manual_check\<rparr>]\<rparr>)
   \<and> check_achievement primer_paso 2 (demo_db\<lparr>stats := (\<lambda>_. no_stats\<lparr>completed_lessons := 1\<rparr>)\<rparr>)
   \<and> user_achievement_create 2 primer_paso manual_check
         (demo_db\<lparr>stats := (\<lambda>_. no_stats\<lparr>completed_lessons := 1\<rparr>)\<rparr>) =
       (Inr (),
        demo_db\<lparr>stats := (\<lambda>_. no_stats\<lparr>completed_lessons := 1\<rparr>),
               user_achievements :=
                 [\<lparr>ua_user = 2, ua_achievement = 1, fore_tokens_awarded = 10,
                   progress_when_earned = manual_check\<rparr>],
               wallets := Map.empty(1 \<mapsto> new_wallet 1, 2 \<mapsto> new_wallet 2)\<rparr>)"
  by (simp add: participacion_def primer_paso_def demo_db_def is_available_def
      has_achievement_def check_achievement_def no_stats_def user_achievement_create_def
      reward_achievement_earned_def add_tokens_def InvalidAmount_def wallet_create_def
      new_wallet_def Let_def)

text \<open>
  C7, amended. When a satisfied achievement with a positive token reward is granted to
  a user who has a wallet, exactly one \<open>UserAchievement\<close> row is appended, with
  \<open>fore_tokens_awarded\<close> equal to the achievement's reward, the wallet is credited that
  amount, and exactly one transaction is appended: of that amount, of type
  \<open>achievement_earned\<close>, and with \<open>related_achievement\<close> set to the achievement. (The
  receiver also sets \<open>related_achievement\<close> on the user's earlier transactions whose
  description contains the title.) When a satisfied achievement is granted to a user who
  has no wallet, the row is appended in the same way and an empty wallet is created for
  the user; no wallet is credited and no transaction is recorded.
\<close>

theorem achievement_grant_credit:
  "(check_achievement a u d \<and> fore_tokens_reward a > 0
      \<and> wallets d u = Some w \<and> w_user w = u \<longrightarrow>
    user_achievement_create u a p d =
     (Inr (),
      d\<lparr>user_achievements := user_achievements d @
           [\<lparr>ua_user = u, ua_achievement = ach_id a,
             fore_tokens_awarded = fore_tokens_reward a, progress_when_earned = p\<rparr>],
        wallets := (wallets d)(u \<mapsto>
           w\<lparr>balance := balance w + of_nat (fore_tokens_reward a),
             total_earned := total_earned w + of_nat (fore_tokens_reward a)\<rparr>),
        transactions :=
           map (\<lambda>t. if t_user t = u \<and> contains (description t) (ach_title a)
                    then t\<lparr>related_achievement := Some (ach_id a)\<rparr> else t)
               (transactions d) @
           [\<lparr>t_user = u, transaction_type = ACHIEVEMENT_EARNED,
             amount = of_nat (fore_tokens_reward a),
             balance_after = balance w + of_nat (fore_tokens_reward a),
             description = achievement_description a,
             related_course = None, related_lesson = None, related_quiz = None,
             related_achievement = Some (ach_id a)\<rparr>]\<rparr>))
   \<and> (check_achievement a u d \<and> wallets d u = None \<longrightarrow>
    user_achievement_create u a p d =
     (Inr (),
      d\<lparr>user_achievements := user_achievements d @
           [\<lparr>ua_user = u, ua_achievement = ach_id a,
             fore_tokens_awarded = fore_tokens_reward a, progress_when_earned = p\<rparr>],
        wallets := (wallets d)(u \<mapsto>
           \<lparr>w_user = u, balance = 0, total_earned = 0, total_spent = 0,
            frozen_amount = 0\<rparr>)\<rparr>))"
proof (intro conjI impI)
  assume h: "check_achievement a u d \<and> fore_tokens_reward a > 0
      \<and> wallets d u = Some w \<and> w_user w = u"
  then have nh: "\<not> has_achievement u a d"
    by (auto simp: check_achievement_def split: if_splits)
  have c: "contains (achievement_description a) (ach_title a)"
    unfolding achievement_description_def by (rule contains_append_left)
  from nh h c show "user_achievement_create u a p d =
     (Inr (),
      d\<lparr>user_achievements := user_achievements d @
           [\<lparr>ua_user = u, ua_achievement = ach_id a,
             fore_tokens_awarded = fore_tokens_reward a, progress_when_earned = p\<rparr>],
        wallets := (wallets d)(u \<mapsto>
           w\<lparr>balance := balance w + of_nat (fore_tokens_reward a),
             total_earned := total_earned w + of_nat (fore_tokens_reward a)\<rparr>),
        transactions :=
           map (\<lambda>t. if t_user t = u \<and> contains (description t) (ach_title a)
                    then t\<lparr>related_achievement := Some (ach_id a)\<rparr> else t)
               (transactions d) @
           [\<lparr>t_user = u, transaction_type = ACHIEVEMENT_EARNED,
             amount = of_nat (fore_tokens_reward a),
             balance_after = balance w + of_nat (fore_tokens_reward a),
             description = achievement_description a,
             related_course = None, related_lesson = None, related_quiz = None,
             related_achievement = Some (ach_id a)\<rparr>]\<rparr>)"
    by (simp add: user_achievement_create_def reward_achievement_earned_def Let_def
        add_tokens_def wallet_save_def transaction_create_def
        transactions_filter_update_def)
next
  assume h: "check_achievement a u d \<and> wallets d u = None"
  then have nh: "\<not> has_achievement u a d"
    by (auto simp: check_achievement_def split: if_splits)
  from nh h show "user_achievement_create u a p d =
     (Inr (),
      d\<lparr>user_achievements := user_achievements d @
           [\<lparr>ua_user = u, ua_achievement = ach_id a,
             fore_tokens_awarded = fore_tokens_reward a, progress_when_earned = p\<rparr>],
        wallets := (wallets d)(u \<mapsto>
           \<lparr>w_user = u, balance = 0, total_earned = 0, total_spent = 0,
            frozen_amount = 0\<rparr>)\<rparr>)"
    by (simp add: user_achievement_create_def reward_achievement_earned_def Let_def
        wallet_create_def new_wallet_def)
qed

theorem achievement_grant_credit_witness:
  "check_achievement primer_paso 1 (demo_db\<lparr>stats := (\<lambda>_. no_stats\<lparr>completed_lessons := 1\<rparr>)\<rparr>)
   \<and> fore_tokens_reward primer_paso > 0
   \<and> wallets (demo_db\<lparr>stats := (\<lambda>_. no_stats\<lparr>completed_lessons := 1\<rparr>)\<rparr>) 1 = Some (new_wallet 1)
   \<and> w_user (new_wallet 1) = 1
   \<and> user_achievement_create 1 primer_paso manual_check
        (demo_db\<lparr>stats := (\<lambda>_. no_stats\<lparr>completed_lessons := 1\<rparr>)\<rparr>) =
      (Inr (),
       demo_db\<lparr>stats := (\<lambda>_. no_stats\<lparr>completed_lessons := 1\<rparr>),
         user_achievements :=
           [\<lparr>ua_user = 1, ua_achievement = 1, fore_tokens_awarded = 10,
             progress_when_earned = manual_check\<rparr>],
         wallets := Map.empty(1 \<mapsto>
           \<lparr>w_user = 1, balance = 10, total_earned = 10, total_spent = 0, frozen_amount = 0\<rparr>),
         transactions :=
           [\<lparr>t_user = 1, transaction_type = ACHIEVEMENT_EARNED, amount = 10,
             balance_after = 10, description = ''Logro obtenido: Primer Paso'',
             related_course = None, related_lesson = None, related_quiz = None,
             related_achievement = Some 1\<rparr>]\<rparr>)
   \<and> check_achievement primer_paso 3 (demo_db\<lparr>stats := (\<lambda>_. no_stats\<lparr>completed_lessons := 1\<rparr>)\<rparr>)
   \<and> wallets (demo_db\<lparr>stats := (\<lambda>_. no_stats\<lparr>completed_lessons := 1\<rparr>)\<rparr>) 3 = None
   \<and> user_achievement_create 3 primer_paso manual_check
        (demo_db\<lparr>stats := (\<lambda>_. no_stats\<lparr>completed_lessons := 1\<rparr>)\<rparr>) =
      (Inr (),
       demo_db\<lparr>stats := (\<lambda>_. no_stats\<lparr>completed_lessons := 1\<rparr>),
         user_achievements :=
           [\<lparr>ua_user = 3, ua_achievement = 1, fore_tokens_awarded = 10,
             progress_when_earned = manual_check\<rparr>],
         wallets := Map.empty(1 \<mapsto> new_wallet 1, 3 \<mapsto>
           \<lparr>w_user = 3, balance = 0, total_earned = 0, total_spent = 0, frozen_amount = 0\<rparr>),
         transactions := []\<rparr>)"
proof -
  let ?d = "demo_db\<lparr>stats := (\<lambda>_. no_stats\<lparr>completed_lessons := 1\<rparr>)\<rparr>"
  have h1: "check_achievement primer_paso 1 ?d" "check_achievement primer_paso 3 ?d"
    by (simp_all add: primer_paso_def demo_db_def is_available_def has_achievement_def
        check_achievement_def no_stats_def)
  have h2: "fore_tokens_reward primer_paso > 0" by (simp add: primer_paso_def)
  have h3: "wallets ?d 1 = Some (new_wallet 1)" "wallets ?d 3 = None"
    by (simp_all add: demo_db_def)
  have h4: "w_user (new_wallet 1) = 1" by (simp add: new_wallet_def)
  from achievement_grant_credit[of primer_paso 1 ?d "new_wallet 1" manual_check]
    achievement_grant_credit[of primer_paso 3 ?d "new_wallet 1" manual_check]
    h1 h2 h3 h4
  show ?thesis
    by (simp add: primer_paso_def demo_db_def new_wallet_def achievement_description_def)
qed

subsection \<open>Evaluating the achievements of a user\<close>

lemma grants_extend_refl: "grants_extend d d"
  by (simp add: grants_extend_def)

lemma grants_extend_trans: "grants_extend d d' \<Longrightarrow> grants_extend d' d'' \<Longrightarrow> grants_extend d d''"
  by (auto simp: grants_extend_def)

lemma reward_achievement_earned_grants:
  "reward_achievement_earned inst a c d = (r, d') \<Longrightarrow>
     user_achievements d' = user_achievements d \<and> stats d' = stats d
     \<and> achievements d' = achievements d"
  by (auto simp: reward_achievement_earned_def wallet_create_def add_tokens_def Let_def
      wallet_save_def transaction_create_def transactions_filter_update_def
      split: if_splits option.splits)

lemma user_achievement_create_grants:
  assumes "user_achievement_create u a p d = (r, d')"
  shows "stats d' = stats d" and "achievements d' = achievements d"
    and "user_achievements d' = user_achievements d
         \<or> (\<not> has_achievement u a d \<and> user_achievements d' = user_achievements d @
              [\<lparr>ua_user = u, ua_achievement = ach_id a,
                fore_tokens_awarded = fore_tokens_reward a, progress_when_earned = p\<rparr>])"
    and "r = Inr () \<Longrightarrow> has_achievement u a d'"
proof -
  show "stats d' = stats d" "achievements d' = achievements d"
    using assms
    by (auto simp: user_achievement_create_def Let_def split: if_splits
        dest!: reward_achievement_earned_grants)
  show "user_achievements d' = user_achievements d
         \<or> (\<not> has_achievement u a d \<and> user_achievements d' = user_achievements d @
              [\<lparr>ua_user = u, ua_achievement = ach_id a,
                fore_tokens_awarded = fore_tokens_reward a, progress_when_earned = p\<rparr>])"
    using assms
    by (auto simp: user_achievement_create_def Let_def split: if_splits
        dest!: reward_achievement_earned_grants)
  show "r = Inr () \<Longrightarrow> has_achievement u a d'"
    using assms
    by (auto simp: user_achievement_create_def Let_def has_achievement_def split: if_splits
        dest!: reward_achievement_earned_grants)
qed

lemma user_achievement_create_extend:
  "user_achievement_create u a p d = (r, d') \<Longrightarrow> grants_extend d d'"
  using user_achievement_create_grants(1-3)[of u a p d r d']
  by (auto simp: grants_extend_def)

lemma loop_extend:
  "check_achievements_loop as u act d = (r, d') \<Longrightarrow> grants_extend d d'"
proof (induction as arbitrary: d)
  case Nil
  then show ?case by (simp add: grants_extend_refl)
next
  case (Cons a as)
  show ?case
  proof (cases "check_achievement a u d")
    case False
    with Cons show ?thesis by simp
  next
    case True
    obtain r1 d1 where c: "user_achievement_create u a (progress_snapshot u act d) d = (r1, d1)"
      by (cases "user_achievement_create u a (progress_snapshot u act d) d")
    from c have e1: "grants_extend d d1" by (rule user_achievement_create_extend)
    show ?thesis
    proof (cases r1)
      case (Inl e)
      with Cons.prems True c have "d' = d1" by simp
      with e1 show ?thesis by simp
    next
      case (Inr x)
      with Cons.prems True c have "check_achievements_loop as u act d1 = (r, d')" by simp
      then have "grants_extend d1 d'" by (rule Cons.IH)
      with e1 show ?thesis by (rule grants_extend_trans)
    qed
  qed
qed

lemma has_achievement_extend:
  "grants_extend d d' \<Longrightarrow> has_achievement u a d \<Longrightarrow> has_achievement u a d'"
  by (auto simp: grants_extend_def has_achievement_def prefix_def list_ex_iff)

lemma recipients_count_extend:
  "grants_extend d d' \<Longrightarrow> recipients_count a d \<le> recipients_count a d'"
  by (auto simp: grants_extend_def recipients_count_def prefix_def)

lemma is_available_extend:
  "grants_extend d d' \<Longrightarrow> \<not> is_available a d \<Longrightarrow> \<not> is_available a d'"
  using recipients_count_extend[of d d' a]
  by (auto simp: is_available_def split: option.splits if_splits)

lemma check_stays_false:
  assumes e: "grants_extend d d'" and nc: "\<not> check_achievement a u d"
    and tok: "required_fore_tokens a > 0 \<longrightarrow> \<not> token_threshold_met a u d'"
  shows "\<not> check_achievement a u d'"
proof (cases "required_fore_tokens a > 0")
  case True
  with tok have "\<not> token_threshold_met a u d'" by simp
  with True show ?thesis
    by (auto simp: check_achievement_def token_threshold_met_def split: option.splits)
next
  case False
  from e have st: "stats d' = stats d" by (simp add: grants_extend_def)
  from nc False have "has_achievement u a d \<or> \<not> is_available a d
      \<or> (required_courses a > 0 \<and> completed_courses (stats d u) < required_courses a)
      \<or> (required_lessons a > 0 \<and> completed_lessons (stats d u) < required_lessons a)
      \<or> (required_quizzes a > 0 \<and> passed_quizzes (stats d u) < required_quizzes a)"
    by (auto simp: check_achievement_def split: if_splits)
  then show ?thesis
    using has_achievement_extend[OF e, of u a] is_available_extend[OF e, of a] st
    by (auto simp: check_achievement_def)
qed

lemma loop_trace:
  assumes "check_achievements_loop as u act d = (Inr (), d1)" and "a \<in> set as"
  shows "has_achievement u a d1 \<or> (\<exists>d'. grants_extend d' d1 \<and> \<not> check_achievement a u d')"
  using assms
proof (induction as arbitrary: d)
  case Nil
  then show ?case by simp
next
  case (Cons b as)
  show ?case
  proof (cases "check_achievement b u d")
    case False
    with Cons.prems(1) have rest: "check_achievements_loop as u act d = (Inr (), d1)" by simp
    show ?thesis
    proof (cases "a = b")
      case True
      from rest have "grants_extend d d1" by (rule loop_extend)
      with False True show ?thesis by blast
    next
      case False
      with Cons.prems(2) have "a \<in> set as" by simp
      with rest show ?thesis by (rule Cons.IH)
    qed
  next
    case True
    obtain r1 dm where c: "user_achievement_create u b (progress_snapshot u act d) d = (r1, dm)"
      by (cases "user_achievement_create u b (progress_snapshot u act d) d")
    with Cons.prems(1) True have r1: "r1 = Inr ()"
      by (cases r1) auto
    with Cons.prems(1) True c have rest: "check_achievements_loop as u act dm = (Inr (), d1)"
      by simp
    show ?thesis
    proof (cases "a = b")
      case True
      from c r1 have "has_achievement u b dm" by (rule user_achievement_create_grants(4))
      moreover from rest have "grants_extend dm d1" by (rule loop_extend)
      ultimately have "has_achievement u b d1" using has_achievement_extend by blast
      with True show ?thesis by simp
    next
      case False
      with Cons.prems(2) have "a \<in> set as" by simp
      with rest show ?thesis by (rule Cons.IH)
    qed
  qed
qed

lemma loop_nothing_to_grant:
  "\<forall>a\<in>set as. \<not> check_achievement a u d \<Longrightarrow> check_achievements_loop as u act d = (Inr (), d)"
  by (induction as) auto

lemma grant_count_create:
  assumes "user_achievement_create u a p d = (r, d')" and "grant_count v b d \<le> 1"
  shows "grant_count v b d' \<le> 1"
proof -
  from user_achievement_create_grants(3)[OF assms(1)]
  show ?thesis
  proof
    assume "user_achievements d' = user_achievements d"
    with assms(2) show ?thesis by (simp add: grant_count_def)
  next
    assume a: "\<not> has_achievement u a d \<and> user_achievements d' = user_achievements d @
              [\<lparr>ua_user = u, ua_achievement = ach_id a,
                fore_tokens_awarded = fore_tokens_reward a, progress_when_earned = p\<rparr>]"
    show ?thesis
    proof (cases "v = u \<and> b = ach_id a")
      case True
      from a have "filter (\<lambda>g. ua_user g = u \<and> ua_achievement g = ach_id a) (user_achievements d) = []"
        by (auto simp: has_achievement_def list_ex_iff filter_empty_conv)
      with a True show ?thesis by (simp add: grant_count_def)
    next
      case False
      with a assms(2) show ?thesis by (auto simp: grant_count_def)
    qed
  qed
qed

lemma grant_count_loop:
  "check_achievements_loop as u act d = (r, d') \<Longrightarrow> grant_count v b d \<le> 1 \<Longrightarrow>
     grant_count v b d' \<le> 1"
proof (induction as arbitrary: d)
  case Nil
  then show ?case by simp
next
  case (Cons a as)
  show ?case
  proof (cases "check_achievement a u d")
    case False
    with Cons show ?thesis by simp
  next
    case True
    obtain r1 dm where c: "user_achievement_create u a (progress_snapshot u act d) d = (r1, dm)"
      by (cases "user_achievement_create u a (progress_snapshot u act d) d")
    from c Cons.prems(2) have g: "grant_count v b dm \<le> 1" by (rule grant_count_create)
    show ?thesis
    proof (cases r1)
      case (Inl e)
      with Cons.prems(1) True c have "d' = dm" by simp
      with g show ?thesis by simp
    next
      case (Inr x)
      with Cons.prems(1) True c have "check_achievements_loop as u act dm = (r, d')" by simp
      from this g show ?thesis by (rule Cons.IH)
    qed
  qed
qed

text \<open>
  C1, as stated, fails in its second half. In \<open>cascade_db\<close> the catalogue lists
  \<open>ahorrador\<close> (10 tokens earned required) before \<open>primer_paso\<close> (one lesson required,
  reward 10). The first evaluation for user 1 grants \<open>primer_paso\<close> only and credits 10
  tokens; the second evaluation, with the same courses, lessons and quizzes, grants
  \<open>ahorrador\<close>.
\<close>

theorem rerun_grants_again:
  "check_achievements_for_user 1 ''manual_check'' cascade_db =
     (Inr (),
      cascade_db\<lparr>user_achievements :=
          [\<lparr>ua_user = 1, ua_achievement = 1, fore_tokens_awarded = 10,
            progress_when_earned = one_lesson\<rparr>],
        wallets := Map.empty(1 \<mapsto>
          \<lparr>w_user = 1, balance = 10, total_earned = 10, total_spent = 0, frozen_amount = 0\<rparr>),
        transactions :=
          [\<lparr>t_user = 1, transaction_type = ACHIEVEMENT_EARNED, amount = 10,
            balance_after = 10, description = ''Logro obtenido: Primer Paso'',
            related_course = None, related_lesson = None, related_quiz = None,
            related_achievement = Some 1\<rparr>]\<rparr>)
   \<and> user_achievements (snd (check_achievements_for_user 1 ''manual_check''
        (snd (check_achievements_for_user 1 ''manual_check'' cascade_db)))) =
          [\<lparr>ua_user = 1, ua_achievement = 1, fore_tokens_awarded = 10,
            progress_when_earned = one_lesson\<rparr>,
           \<lparr>ua_user = 1, ua_achievement = 2, fore_tokens_awarded = 5,
            progress_when_earned = one_lesson\<rparr>]"
  by (simp add: cascade_db_def demo_db_def ahorrador_def primer_paso_def no_stats_def
      one_lesson_def check_achievements_for_user_def available_achievements_def
      has_achievement_def check_achievement_def is_available_def
      user_achievement_create_def progress_snapshot_def reward_achievement_earned_def
      add_tokens_def wallet_save_def transaction_create_def transactions_filter_update_def
      achievement_description_def new_wallet_def Let_def)

text \<open>
  C1, amended. An evaluation never produces a second grant row for a pair: if every
  (user, achievement) pair has at most one row before, so it has after, whether the
  evaluation returns or raises. A second evaluation for the same user grants nothing
  and changes nothing, provided the first returned normally and no active achievement
  that is still ungranted has a token threshold which the user's total_earned, as the
  first evaluation left it, meets.
\<close>

theorem grants_unique_and_rerun:
  assumes uniq: "\<forall>v b. grant_count v b d \<le> 1"
    and run1: "check_achievements_for_user u act d = (r, d1)"
  shows "(\<forall>v b. grant_count v b d1 \<le> 1)
    \<and> (r = Inr () \<and>
         (\<forall>a\<in>set (achievements d). ach_is_active a \<and> \<not> has_achievement u a d1
              \<and> required_fore_tokens a > 0 \<longrightarrow> \<not> token_threshold_met a u d1)
         \<longrightarrow> check_achievements_for_user u act' d1 = (Inr (), d1))"
proof
  from run1 have loop1: "check_achievements_loop (available_achievements u d) u act d = (r, d1)"
    by (simp add: check_achievements_for_user_def)
  show "\<forall>v b. grant_count v b d1 \<le> 1"
    using grant_count_loop[OF loop1] uniq by blast
  show "r = Inr () \<and>
         (\<forall>a\<in>set (achievements d). ach_is_active a \<and> \<not> has_achievement u a d1
              \<and> required_fore_tokens a > 0 \<longrightarrow> \<not> token_threshold_met a u d1)
         \<longrightarrow> check_achievements_for_user u act' d1 = (Inr (), d1)"
  proof
    assume h: "r = Inr () \<and>
         (\<forall>a\<in>set (achievements d). ach_is_active a \<and> \<not> has_achievement u a d1
              \<and> required_fore_tokens a > 0 \<longrightarrow> \<not> token_threshold_met a u d1)"
    from loop1 have ext: "grants_extend d d1" by (rule loop_extend)
    then have cat: "achievements d1 = achievements d" by (simp add: grants_extend_def)
    have "\<forall>a\<in>set (available_achievements u d1). \<not> check_achievement a u d1"
    proof
      fix a assume "a \<in> set (available_achievements u d1)"
      with cat have mem: "a \<in> set (achievements d)" and act: "ach_is_active a"
        and nh1: "\<not> has_achievement u a d1"
        by (auto simp: available_achievements_def)
      from nh1 ext have "\<not> has_achievement u a d" using has_achievement_extend by blast
      with mem act have "a \<in> set (available_achievements u d)"
        by (simp add: available_achievements_def)
      with loop1 h nh1 obtain d' where e': "grants_extend d' d1"
        and nc: "\<not> check_achievement a u d'"
        using loop_trace by blast
      from h mem act nh1
      have "required_fore_tokens a > 0 \<longrightarrow> \<not> token_threshold_met a u d1" by blast
      with e' nc show "\<not> check_achievement a u d1" by (rule check_stays_false)
    qed
    then show "check_achievements_for_user u act' d1 = (Inr (), d1)"
      unfolding check_achievements_for_user_def by (rule loop_nothing_to_grant)
  qed
qed

theorem grants_unique_and_rerun_witness:
  "(\<forall>v b. grant_count v b rerun_db \<le> 1)
   \<and> check_achievements_for_user 1 ''manual_check'' rerun_db =
     (Inr (),
      rerun_db\<lparr>user_achievements :=
          [\<lparr>ua_user = 1, ua_achievement = 1, fore_tokens_awarded = 10,
            progress_when_earned = one_lesson\<rparr>],
        wallets := Map.empty(1 \<mapsto>
          \<lparr>w_user = 1, balance = 10, total_earned = 10, total_spent = 0, frozen_amount = 0\<rparr>),
        transactions :=
          [\<lparr>t_user = 1, transaction_type = ACHIEVEMENT_EARNED, amount = 10,
            balance_after = 10, description = ''Logro obtenido: Primer Paso'',
            related_course = None, related_lesson = None, related_quiz = None,
            related_achievement = Some 1\<rparr>]\<rparr>)
   \<and> check_achievements_for_user 1 ''quiz_passed''
       (snd (check_achievements_for_user 1 ''manual_check'' rerun_db)) =
     (Inr (), snd (check_achievements_for_user 1 ''manual_check'' rerun_db))
   \<and> (\<forall>v b. grant_count v b (snd (check_achievements_for_user 1 ''manual_check'' rerun_db)) \<le> 1)"
proof -
  let ?d1 = "rerun_db\<lparr>user_achievements :=
          [\<lparr>ua_user = 1, ua_achievement = 1, fore_tokens_awarded = 10,
            progress_when_earned = one_lesson\<rparr>],
        wallets := Map.empty(1 \<mapsto>
          \<lparr>w_user = 1, balance = 10, total_earned = 10, total_spent = 0, frozen_amount = 0\<rparr>),
        transactions :=
          [\<lparr>t_user = 1, transaction_type = ACHIEVEMENT_EARNED, amount = 10,
            balance_after = 10, description = ''Logro obtenido: Primer Paso'',
            related_course = None, related_lesson = None, related_quiz = None,
            related_achievement = Some 1\<rparr>]\<rparr>"
  have u: "\<forall>v b. grant_count v b rerun_db \<le> 1"
    by (simp add: grant_count_def rerun_db_def demo_db_def)
  have r: "check_achievements_for_user 1 ''manual_check'' rerun_db = (Inr (), ?d1)"
    by (simp add: rerun_db_def demo_db_def coleccionista_def primer_paso_def no_stats_def
      one_lesson_def check_achievements_for_user_def available_achievements_def
      has_achievement_def check_achievement_def is_available_def
      user_achievement_create_def progress_snapshot_def reward_achievement_earned_def
      add_tokens_def wallet_save_def transaction_create_def transactions_filter_update_def
      achievement_description_def new_wallet_def Let_def)
  have t: "\<forall>a\<in>set (achievements rerun_db). ach_is_active a \<and> \<not> has_achievement 1 a ?d1
              \<and> required_fore_tokens a > 0 \<longrightarrow> \<not> token_threshold_met a 1 ?d1"
    by (simp add: rerun_db_def demo_db_def coleccionista_def primer_paso_def
        token_threshold_met_def has_achievement_def)
  from grants_unique_and_rerun[OF u r, of "''quiz_passed''"] t
  have "(\<forall>v b. grant_count v b ?d1 \<le> 1)
      \<and> check_achievements_for_user 1 ''quiz_passed'' ?d1 = (Inr (), ?d1)"
    by blast
  with u r show ?thesis by simp
qed

subsection \<open>A rule for relations that every grant respects\<close>


subsection \<open>The log only grows\<close>




lemma spend_tokens_cases:
  obtains (raised) "\<not> can_spend w amt"
      "spend_tokens w amt descr ty d = (Inl InsufficientBalance, w, d)"
  | (debited) "can_spend w amt"
      "spend_tokens w amt descr ty d =
         (Inr (balance w - amt),
          w\<lparr>balance := balance w - amt, total_spent := total_spent w + amt\<rparr>,
          d\<lparr>wallets := (wallets d)(w_user w \<mapsto>
                w\<lparr>balance := balance w - amt, total_spent := total_spent w + amt\<rparr>),
            transactions := transactions d @
              [\<lparr>t_user = w_user w, transaction_type = ty, amount = - amt,
                balance_after = balance w - amt, description = descr,
                related_course = None, related_lesson = None,
                related_quiz = None, related_achievement = None\<rparr>]\<rparr>)"
proof (cases "can_spend w amt")
  case False
  then show ?thesis
    by (intro raised) (simp_all add: spend_tokens_def InsufficientBalance_def)
next
  case True
  then show ?thesis
    by (intro debited)
       (simp_all add: spend_tokens_def Let_def wallet_save_def transaction_create_def)
qed





lemma transactions_wallet_create [simp]: "transactions (wallet_create u d) = transactions d"
  by (simp add: wallet_create_def)

subsection \<open>Relations that every write keeps hold across every entry point\<close>















subsection \<open>The chain of balances is kept\<close>

lemma user_transactions_other_fields [simp]:
  "user_transactions u (d\<lparr>wallets := ws\<rparr>) = user_transactions u d"
  "user_transactions u (d\<lparr>user_achievements := gs\<rparr>) = user_transactions u d"
  by (simp_all add: user_transactions_def)

















subsection \<open>Earnings across achievement grants\<close>



lemma credits_of_other_fields [simp]:
  "credits_of u ty a (d\<lparr>wallets := ws\<rparr>) = credits_of u ty a d"
  "credits_of u ty a (d\<lparr>user_achievements := gs\<rparr>) = credits_of u ty a d"
  by (simp_all add: credits_of_def)
















subsection \<open>Leaderboard recomputation\<close>

lemma order_by_desc_props:
  "set (order_by_desc k xs) = set xs"
  "distinct (order_by_desc k xs) = distinct xs"
  "length (order_by_desc k xs) = length xs"
  by (simp_all add: order_by_desc_def)

lemma order_by_desc_unique:
  assumes "set xs = set ys" and "distinct xs" and "distinct ys" and "inj_on k (set xs)"
  shows "order_by_desc k xs = order_by_desc k ys"
proof -
  let ?a = "sort_key k (rev xs)" and ?b = "sort_key k (rev ys)"
  have sa: "set ?a = set xs" and sb: "set ?b = set xs" using assms(1) by simp_all
  have "sorted (map k ?a)" by simp
  moreover have "distinct (map k ?a)" using assms by (simp add: distinct_map)
  moreover have "sorted (map k ?b)" by simp
  moreover have "distinct (map k ?b)" using assms by (simp add: distinct_map)
  moreover have "set (map k ?a) = set (map k ?b)" using assms(1) by simp
  ultimately have "map k ?a = map k ?b" by (rule sorted_distinct_set_unique)
  moreover have "inj_on k (set ?a \<union> set ?b)" using assms(4) sa sb by simp
  ultimately have "?a = ?b" using inj_on_map_eq_map by blast
  then show ?thesis by (simp add: order_by_desc_def)
qed

lemma students_props:
  "set (students rows) = {u \<in> set rows. user_role u = ''student'' \<and> user_is_active u}"
  "distinct rows \<Longrightarrow> distinct (students rows)"
  by (auto simp: students_def order_by_desc_props)

lemma students_unique:
  assumes "set rows' = set rows" and "distinct rows" and "distinct rows'"
    and "inj_on user_created_at (set rows)"
  shows "students rows' = students rows"
  unfolding students_def
proof (rule order_by_desc_unique)
  let ?P = "\<lambda>u. user_role u = ''student'' \<and> user_is_active u"
  show "set (filter ?P rows') = set (filter ?P rows)" using assms(1) by simp
  show "distinct (filter ?P rows')" using assms(3) by simp
  show "distinct (filter ?P rows)" using assms(2) by simp
  show "inj_on user_created_at (set (filter ?P rows'))"
    using assms(1,4) by (auto intro: inj_on_subset)
qed

lemma sort_by_score_desc_props:
  "set (sort_by_score_desc xs) = set xs"
  "length (sort_by_score_desc xs) = length xs"
  "distinct (map f (sort_by_score_desc xs)) = distinct (map f xs)"
  "sorted_wrt (\<lambda>p q. snd p \<ge> snd q) (sort_by_score_desc xs)"
proof -
  show "set (sort_by_score_desc xs) = set xs" "length (sort_by_score_desc xs) = length xs"
    by (simp_all add: sort_by_score_desc_def)
  show "distinct (map f (sort_by_score_desc xs)) = distinct (map f xs)"
    by (simp add: sort_by_score_desc_def distinct_map)
  have "sorted (map snd (sort_key snd (rev xs)))" by simp
  then have "sorted_wrt (\<lambda>p q. snd p \<le> snd q) (sort_key snd (rev xs))"
    by (simp add: sorted_map)
  then show "sorted_wrt (\<lambda>p q. snd p \<ge> snd q) (sort_by_score_desc xs)"
    by (simp add: sort_by_score_desc_def sorted_wrt_rev)
qed

lemma sort_by_score_desc_stable:
  "filter (\<lambda>p. snd p = s) (sort_by_score_desc xs) = filter (\<lambda>p. snd p = s) xs"
proof -
  have "filter (\<lambda>p. snd p = s) (sort_key snd (rev xs)) = filter (\<lambda>p. snd p = s) (rev xs)"
    by (rule sort_key_stable)
  then have "rev (filter (\<lambda>p. snd p = s) (sort_key snd (rev xs)))
           = rev (filter (\<lambda>p. snd p = s) (rev xs))" by simp
  then show ?thesis by (simp add: sort_by_score_desc_def rev_filter)
qed

lemma update_rankings_columns:
  "map ur_position (update_rankings self rows activity d) =
     [1..<Suc (length (update_rankings self rows activity d))]"
  "map ur_score (update_rankings self rows activity d) =
     map snd (take (max_positions self)
       (sort_by_score_desc (user_scores self (students rows) activity d)))"
  "map ur_user (update_rankings self rows activity d) =
     map (\<lambda>p. user_id (fst p)) (take (max_positions self)
       (sort_by_score_desc (user_scores self (students rows) activity d)))"
  "length (update_rankings self rows activity d) =
     min (max_positions self) (length (user_scores self (students rows) activity d))"
proof -
  let ?L = "take (max_positions self)
       (sort_by_score_desc (user_scores self (students rows) activity d))"
  have pos: "ur_position \<circ> (\<lambda>(pos, (u, sc)). user_ranking_create self u pos sc) = fst"
    and sc: "ur_score \<circ> (\<lambda>(pos, (u, sc)). user_ranking_create self u pos sc) = snd \<circ> snd"
    and us: "ur_user \<circ> (\<lambda>(pos, (u, sc)). user_ranking_create self u pos sc)
               = (\<lambda>p. user_id (fst p)) \<circ> snd"
    by (auto simp: user_ranking_create_def fun_eq_iff)
  show "map ur_position (update_rankings self rows activity d) =
     [1..<Suc (length (update_rankings self rows activity d))]"
    by (simp add: update_rankings_def pos)
  have "map (snd \<circ> snd) (enumerate 1 ?L) = map snd ?L"
    by (metis map_map map_snd_enumerate)
  then show "map ur_score (update_rankings self rows activity d) = map snd ?L"
    by (simp add: update_rankings_def sc)
  have "map ((\<lambda>p. user_id (fst p)) \<circ> snd) (enumerate 1 ?L)
          = map (\<lambda>p. user_id (fst p)) ?L"
    by (metis map_map map_snd_enumerate)
  then show "map ur_user (update_rankings self rows activity d) = map (\<lambda>p. user_id (fst p)) ?L"
    by (simp add: update_rankings_def us)
  show "length (update_rankings self rows activity d) =
     min (max_positions self) (length (user_scores self (students rows) activity d))"
    by (simp add: update_rankings_def sort_by_score_desc_props)
qed

lemma user_scores_props:
  "p \<in> set (user_scores self users activity d) \<longleftrightarrow>
     fst p \<in> set users \<and> snd p = user_score self activity d (user_id (fst p)) \<and> snd p > 0"
  "map fst (user_scores self users activity d) =
     filter (\<lambda>u. user_score self activity d (user_id u) > 0) users"
proof -
  show "p \<in> set (user_scores self users activity d) \<longleftrightarrow>
     fst p \<in> set users \<and> snd p = user_score self activity d (user_id (fst p)) \<and> snd p > 0"
    by (cases p) (auto simp: user_scores_def)
  show "map fst (user_scores self users activity d) =
     filter (\<lambda>u. user_score self activity d (user_id u) > 0) users"
    by (induction users) (simp_all add: user_scores_def)
qed

lemma ranked_with_score:
  "map ur_user (filter (\<lambda>r. ur_score r = s)
       (map (\<lambda>(pos, (u, sc)). user_ranking_create self u pos sc) (enumerate n L))) =
   map (\<lambda>p. user_id (fst p)) (filter (\<lambda>p. snd p = s) L)"
  by (induction L arbitrary: n) (auto simp: user_ranking_create_def)

lemma prefix_filter_take: "prefix (filter P (take n xs)) (filter P xs)"
proof -
  have "filter P xs = filter P (take n xs) @ filter P (drop n xs)"
    by (metis append_take_drop_id filter_append)
  then show ?thesis by (simp add: prefix_def)
qed

lemma user_scores_with_score:
  "0 < s \<Longrightarrow>
   map (\<lambda>p. user_id (fst p)) (filter (\<lambda>p. snd p = s) (user_scores self users activity d)) =
   map user_id (filter (\<lambda>u. user_score self activity d (user_id u) = s) users)"
  by (induction users) (auto simp: user_scores_def)

lemma update_rankings_ties:
  assumes "0 < s"
  shows "prefix (map ur_user (filter (\<lambda>r. ur_score r = s) (update_rankings self rows activity d)))
           (map user_id (filter (\<lambda>u. user_score self activity d (user_id u) = s)
              (students rows)))"
proof -
  let ?S = "user_scores self (students rows) activity d"
  let ?g = "\<lambda>p. user_id (fst p)"
  have "prefix (filter (\<lambda>p. snd p = s) (take (max_positions self) (sort_by_score_desc ?S)))
          (filter (\<lambda>p. snd p = s) (sort_by_score_desc ?S))"
    by (rule prefix_filter_take)
  then have "prefix (map ?g (filter (\<lambda>p. snd p = s)
                 (take (max_positions self) (sort_by_score_desc ?S))))
          (map ?g (filter (\<lambda>p. snd p = s) ?S))"
    by (simp add: sort_by_score_desc_stable map_mono_prefix)
  moreover have "map ?g (filter (\<lambda>p. snd p = s) ?S) =
      map user_id (filter (\<lambda>u. user_score self activity d (user_id u) = s) (students rows))"
    using assms by (rule user_scores_with_score)
  ultimately show ?thesis
    by (simp add: update_rankings_def ranked_with_score)
qed

text \<open>
  C8, as stated, fails: the sort has no secondary key, and ties keep the order of the
  rows the user query returned. \<open>ana\<close> and \<open>beto\<close> are students created at the same
  instant, each with three lessons in the period. On the same user table, delivered by
  the database in one order or the other, the recomputation ranks \<open>ana\<close> first or
  \<open>beto\<close> first.
\<close>

theorem ranking_follows_row_order:
  "set [ana, beto] = set [beto, ana]
   \<and> update_rankings weekly_lessons [ana, beto] three_lessons demo_db =
       [\<lparr>ur_user = 1, ur_position = 1, ur_score = 3, reward_claimed = False, reward_amount = 100\<rparr>,
        \<lparr>ur_user = 2, ur_position = 2, ur_score = 3, reward_claimed = False, reward_amount = 75\<rparr>]
   \<and> update_rankings weekly_lessons [beto, ana] three_lessons demo_db =
       [\<lparr>ur_user = 2, ur_position = 1, ur_score = 3, reward_claimed = False, reward_amount = 100\<rparr>,
        \<lparr>ur_user = 1, ur_position = 2, ur_score = 3, reward_claimed = False, reward_amount = 75\<rparr>]"
  by (simp add: update_rankings_def user_scores_def students_def order_by_desc_def
      sort_by_score_desc_def user_score_def weekly_lessons_def ana_def beto_def
      three_lessons_def user_ranking_create_def insert_commute)

text \<open>
  C8, amended. After a recomputation over a user table with distinct user ids, the
  positions are 1..N without gap or repetition, where N is the smaller of max_positions
  and the number of active students with a positive score; no user is ranked twice;
  every ranked user is an active student and is ranked with a score that is the user's
  score and is positive; scores do not increase along the positions; among the users
  of one score, the ranked ones come in the order of the user query (newest account
  first, accounts created at the same instant in the order the database returns them);
  and two recomputations over the same users and activity give the same rows whenever
  no two users share their creation time.
\<close>

theorem rankings_recomputed:
  assumes "distinct (map user_id rows)"
  shows "map ur_position (update_rankings self rows activity d)
           = [1..<Suc (length (update_rankings self rows activity d))]
    \<and> length (update_rankings self rows activity d)
           = min (max_positions self)
               (length (filter (\<lambda>u. user_score self activity d (user_id u) > 0)
                  (students rows)))
    \<and> distinct (map ur_user (update_rankings self rows activity d))
    \<and> (\<forall>r\<in>set (update_rankings self rows activity d).
          ur_score r > 0 \<and>
          (\<exists>u\<in>set (students rows).
              ur_user r = user_id u \<and> ur_score r = user_score self activity d (user_id u)))
    \<and> sorted_wrt (\<lambda>r r'. ur_score r \<ge> ur_score r') (update_rankings self rows activity d)
    \<and> (\<forall>s>0. prefix
          (map ur_user (filter (\<lambda>r. ur_score r = s) (update_rankings self rows activity d)))
          (map user_id (filter (\<lambda>u. user_score self activity d (user_id u) = s)
              (students rows))))
    \<and> (\<forall>rows'. distinct (map user_id rows') \<and> set rows' = set rows
           \<and> inj_on user_created_at (set rows)
         \<longrightarrow> update_rankings self rows' activity d = update_rankings self rows activity d)"
proof -
  let ?R = "update_rankings self rows activity d"
  let ?S = "user_scores self (students rows) activity d"
  let ?L = "take (max_positions self) (sort_by_score_desc ?S)"
  from assms have dr: "distinct rows" and inj: "inj_on user_id (set rows)"
    by (simp_all add: distinct_map)
  have 1: "map ur_position ?R = [1..<Suc (length ?R)]" by (rule update_rankings_columns(1))
  have "length ?S = length (map fst ?S)" by simp
  also have "\<dots> = length (filter (\<lambda>u. user_score self activity d (user_id u) > 0) (students rows))"
    by (simp only: user_scores_props(2))
  finally have 2: "length ?R = min (max_positions self)
               (length (filter (\<lambda>u. user_score self activity d (user_id u) > 0)
                  (students rows)))"
    by (simp add: update_rankings_columns(4))
  have sub: "set ?L \<subseteq> set ?S"
    using set_take_subset[of "max_positions self" "sort_by_score_desc ?S"]
    by (simp add: sort_by_score_desc_props(1))
  have 3: "distinct (map ur_user ?R)"
  proof -
    have ds: "distinct (students rows)" using dr by (rule students_props(2))
    have "set (students rows) \<subseteq> set rows" by (auto simp: students_props(1))
    with inj have "inj_on user_id (set (students rows))" by (rule inj_on_subset)
    with ds have "distinct (map user_id (filter (\<lambda>u. user_score self activity d (user_id u) > 0)
                       (students rows)))"
      by (simp add: distinct_map inj_on_def)
    then have "distinct (map user_id (map fst ?S))" by (simp only: user_scores_props(2))
    then have "distinct (map (\<lambda>p. user_id (fst p)) ?S)" by (simp add: o_def)
    then have "distinct (map (\<lambda>p. user_id (fst p)) (sort_by_score_desc ?S))"
      by (simp add: sort_by_score_desc_props(3))
    then have "distinct (take (max_positions self)
                  (map (\<lambda>p. user_id (fst p)) (sort_by_score_desc ?S)))"
      by (rule distinct_take)
    then show ?thesis by (simp add: update_rankings_columns(3) take_map)
  qed
  have 4: "\<forall>r\<in>set ?R. ur_score r > 0 \<and>
          (\<exists>u\<in>set (students rows).
              ur_user r = user_id u \<and> ur_score r = user_score self activity d (user_id u))"
  proof
    fix r assume "r \<in> set ?R"
    then obtain pos u sc where r: "r = user_ranking_create self u pos sc" and "(u, sc) \<in> set ?L"
      by (auto simp: update_rankings_def dest: in_set_enumerate_eq[THEN iffD1])
         (metis in_set_conv_nth length_enumerate prod.collapse nth_mem nth_enumerate_eq snd_conv)
    with sub have "(u, sc) \<in> set ?S" by blast
    then have "u \<in> set (students rows)" "sc = user_score self activity d (user_id u)" "sc > 0"
      by (simp_all add: user_scores_props(1))
    with r show "ur_score r > 0 \<and>
          (\<exists>u\<in>set (students rows).
              ur_user r = user_id u \<and> ur_score r = user_score self activity d (user_id u))"
      by (auto simp: user_ranking_create_def)
  qed
  have 5: "sorted_wrt (\<lambda>r r'. ur_score r \<ge> ur_score r') ?R"
  proof -
    have "sorted_wrt (\<lambda>p q. snd p \<ge> snd q) ?L"
      using sort_by_score_desc_props(4)[of ?S] by (rule sorted_wrt_take)
    then have "sorted_wrt (\<ge>) (map snd ?L)" by (simp add: sorted_wrt_map)
    then have "sorted_wrt (\<ge>) (map ur_score ?R)" by (simp only: update_rankings_columns(2))
    then show ?thesis by (simp add: sorted_wrt_map)
  qed
  have 6: "\<forall>s>0. prefix
          (map ur_user (filter (\<lambda>r. ur_score r = s) ?R))
          (map user_id (filter (\<lambda>u. user_score self activity d (user_id u) = s)
              (students rows)))"
    using update_rankings_ties by blast
  have 7: "\<forall>rows'. distinct (map user_id rows') \<and> set rows' = set rows
           \<and> inj_on user_created_at (set rows)
         \<longrightarrow> update_rankings self rows' activity d = ?R"
  proof (intro allI impI)
    fix rows'
    assume h: "distinct (map user_id rows') \<and> set rows' = set rows
           \<and> inj_on user_created_at (set rows)"
    then have "distinct rows'" by (simp add: distinct_map)
    with h dr have "students rows' = students rows" by (intro students_unique) simp_all
    then show "update_rankings self rows' activity d = ?R" by (simp add: update_rankings_def)
  qed
  from 1 2 3 4 5 6 7 show ?thesis by blast
qed


theorem rankings_recomputed_witness:
  "distinct (map user_id [ana, carla])
   \<and> distinct (map user_id [carla, ana])
   \<and> set [carla, ana] = set [ana, carla]
   \<and> inj_on user_created_at (set [ana, carla])
   \<and> update_rankings weekly_lessons [carla, ana] three_lessons demo_db
       = update_rankings weekly_lessons [ana, carla] three_lessons demo_db
   \<and> map ur_position (update_rankings weekly_lessons [ana, carla] three_lessons demo_db)
       = [1..<Suc (length (update_rankings weekly_lessons [ana, carla] three_lessons demo_db))]
   \<and> update_rankings weekly_lessons [ana, carla] three_lessons demo_db =
       [\<lparr>ur_user = 3, ur_position = 1, ur_score = 3, reward_claimed = False, reward_amount = 100\<rparr>,
        \<lparr>ur_user = 1, ur_position = 2, ur_score = 3, reward_claimed = False, reward_amount = 75\<rparr>]"
proof -
  have d: "distinct (map user_id [ana, carla])" "distinct (map user_id [carla, ana])"
    by (simp_all add: ana_def carla_def)
  have s: "set [carla, ana] = set [ana, carla]" by auto
  have i: "inj_on user_created_at (set [ana, carla])" by (simp add: ana_def carla_def)
  note t = rankings_recomputed[OF d(1), of weekly_lessons three_lessons demo_db]
  from t d(2) s i
  have a: "update_rankings weekly_lessons [carla, ana] three_lessons demo_db
       = update_rankings weekly_lessons [ana, carla] three_lessons demo_db"
    by blast
  from t have b: "map ur_position (update_rankings weekly_lessons [ana, carla] three_lessons demo_db)
       = [1..<Suc (length (update_rankings weekly_lessons [ana, carla] three_lessons demo_db))]"
    by blast
  have c: "update_rankings weekly_lessons [ana, carla] three_lessons demo_db =
       [\<lparr>ur_user = 3, ur_position = 1, ur_score = 3, reward_claimed = False, reward_amount = 100\<rparr>,
        \<lparr>ur_user = 1, ur_position = 2, ur_score = 3, reward_claimed = False, reward_amount = 75\<rparr>]"
    by (simp add: update_rankings_def user_scores_def students_def order_by_desc_def
      sort_by_score_desc_def user_score_def weekly_lessons_def ana_def carla_def
      three_lessons_def user_ranking_create_def)
  from d s i a b c show ?thesis by blast
qed

subsection \<open>Redemption\<close>

lemma get_object_Some: "get_object pk qp d = Some r \<Longrightarrow> rewards d pk = Some r"
  by (auto simp: get_object_def split: option.splits if_splits)

lemma can_redeem_True:
  assumes "can_redeem r pk u now d = (True, m)"
  obtains wallet where "wallets d u = Some wallet" and "can_spend wallet (of_nat (fore_cost r))"
    and "reward_is_available r now"
  using assms by (auto simp: can_redeem_def split: if_splits option.splits)

lemma reward_available_stock: "reward_is_available r now \<Longrightarrow> stock_quantity r \<noteq> Some 0"
  by (auto simp: reward_is_available_def split: if_splits)

lemma redeem_cases:
  obtains (refused) "\<forall>rd. fst (redeem ru pk qp rq now code d) \<noteq> HTTP_201_CREATED rd"
      "snd (redeem ru pk qp rq now code d) = d"
      "get_object pk qp d = None \<or> \<not> serializer_is_valid rq now d
       \<or> user_role ru \<noteq> ''student''
       \<or> (\<exists>r. get_object pk qp d = Some r \<and> \<not> fst (can_redeem r pk (user_id ru) now d))"
  | (created) reward wallet rd where
      "get_object pk qp d = Some reward" "wallets d (user_id ru) = Some wallet"
      "fst (can_redeem reward pk (user_id ru) now d)"
      "rd = \<lparr>rd_user = user_id ru, rd_reward = pk, rd_fore_cost = fore_cost reward,
             rd_status = PENDING,
             delivery_address = (case req_delivery_address rq of None \<Rightarrow> [] | Some a \<Rightarrow> a),
             delivery_phone = (case req_delivery_phone rq of None \<Rightarrow> [] | Some p \<Rightarrow> p),
             redemption_code = code\<rparr>"
      "redeem ru pk qp rq now code d = (HTTP_201_CREATED rd, redeemed_db pk reward wallet rd d)"
proof (cases "user_role ru \<noteq> ''student''")
  case True
  then show ?thesis by (intro refused) (simp_all add: redeem_def)
next
  case student: False
  show ?thesis
  proof (cases "get_object pk qp d")
    case None
    with student show ?thesis by (intro refused) (simp_all add: redeem_def)
  next
    case (Some reward)
    show ?thesis
    proof (cases "serializer_is_valid rq now d")
      case False
      with student Some show ?thesis by (intro refused) (simp_all add: redeem_def)
    next
      case valid: True
      obtain ok m where cr: "can_redeem reward pk (user_id ru) now d = (ok, m)"
        by (cases "can_redeem reward pk (user_id ru) now d")
      show ?thesis
      proof (cases ok)
        case False
        with student Some valid cr show ?thesis
          by (intro refused) (simp_all add: redeem_def)
      next
        case True
        with cr obtain wallet where w: "wallets d (user_id ru) = Some wallet"
          and cs: "can_spend wallet (of_nat (fore_cost reward))"
          and av: "reward_is_available reward now"
          by (auto elim: can_redeem_True)
        let ?rd = "\<lparr>rd_user = user_id ru, rd_reward = pk, rd_fore_cost = fore_cost reward,
             rd_status = PENDING,
             delivery_address = (case req_delivery_address rq of None \<Rightarrow> [] | Some a \<Rightarrow> a),
             delivery_phone = (case req_delivery_phone rq of None \<Rightarrow> [] | Some p \<Rightarrow> p),
             redemption_code = code\<rparr>"
        from cs have sp: "spend_tokens wallet (of_nat (fore_cost reward))
                 (redemption_description reward) REWARD_PURCHASE d =
           (Inr (balance wallet - of_nat (fore_cost reward)),
            wallet\<lparr>balance := balance wallet - of_nat (fore_cost reward),
                   total_spent := total_spent wallet + of_nat (fore_cost reward)\<rparr>,
            d\<lparr>wallets := (wallets d)(w_user wallet \<mapsto>
                 wallet\<lparr>balance := balance wallet - of_nat (fore_cost reward),
                        total_spent := total_spent wallet + of_nat (fore_cost reward)\<rparr>),
              transactions := transactions d @
                [\<lparr>t_user = w_user wallet, transaction_type = REWARD_PURCHASE,
                  amount = - of_nat (fore_cost reward),
                  balance_after = balance wallet - of_nat (fore_cost reward),
                  description = redemption_description reward,
                  related_course = None, related_lesson = None,
                  related_quiz = None, related_achievement = None\<rparr>]\<rparr>)"
          by (cases rule: spend_tokens_cases[of wallet "of_nat (fore_cost reward)"
                "redemption_description reward" REWARD_PURCHASE d]) simp_all
        from av have st: "stock_quantity reward \<noteq> Some 0" by (rule reward_available_stock)
        have "redeem ru pk qp rq now code d = (HTTP_201_CREATED ?rd, redeemed_db pk reward wallet ?rd d)"
        proof (cases "stock_quantity reward")
          case None
          have eq: "r\<lparr>total_redeemed := n, stock_quantity := None\<rparr> = r\<lparr>total_redeemed := n\<rparr>"
            if "stock_quantity r = None" for r :: reward and n
            using that by (cases r) simp
          from None student Some valid cr True w sp show ?thesis
            by (simp add: redeem_def redeemed_db_def Let_def eq[OF None])
        next
          case (Some s)
          with st obtain s' where "s = Suc s'" by (cases s) auto
          with Some student \<open>get_object pk qp d = Some reward\<close> valid cr True w sp show ?thesis
            by (simp add: redeem_def redeemed_db_def Let_def)
        qed
        with Some w cr True show ?thesis by (intro created[of reward wallet ?rd]) simp_all
      qed
    qed
  qed
qed

text \<open>
  C9. A redemption request that is not answered with 201 leaves the database as it
  was: wallet, stock, \<open>total_redeemed\<close> and the redemption table. A request for a
  reward whose \<open>can_redeem\<close> check fails (not available or out of stock, no wallet or
  insufficient balance, per-user limit reached) is never answered with 201. A request
  answered with 201 has debited the wallet by \<open>fore_cost\<close>, recorded the debit, created
  the redemption row, lowered a finite stock by one and raised \<open>total_redeemed\<close> by one.
\<close>

theorem redemption_all_or_nothing:
  "((\<forall>rd. fst (redeem ru pk qp rq now code d) \<noteq> HTTP_201_CREATED rd)
       \<longrightarrow> snd (redeem ru pk qp rq now code d) = d)
   \<and> (\<forall>reward. rewards d pk = Some reward
          \<and> \<not> fst (can_redeem reward pk (user_id ru) now d)
       \<longrightarrow> (\<forall>rd. fst (redeem ru pk qp rq now code d) \<noteq> HTTP_201_CREATED rd))
   \<and> (\<forall>rd. fst (redeem ru pk qp rq now code d) = HTTP_201_CREATED rd
       \<longrightarrow> (\<exists>reward wallet.
              rewards d pk = Some reward \<and> wallets d (user_id ru) = Some wallet
              \<and> rd = \<lparr>rd_user = user_id ru, rd_reward = pk, rd_fore_cost = fore_cost reward,
                      rd_status = PENDING,
                      delivery_address =
                        (case req_delivery_address rq of None \<Rightarrow> [] | Some a \<Rightarrow> a),
                      delivery_phone =
                        (case req_delivery_phone rq of None \<Rightarrow> [] | Some p \<Rightarrow> p),
                      redemption_code = code\<rparr>
              \<and> snd (redeem ru pk qp rq now code d) = redeemed_db pk reward wallet rd d))"
proof (cases rule: redeem_cases[of ru pk qp rq now code d])
  case refused
  have "\<forall>rd. fst (redeem ru pk qp rq now code d) \<noteq> HTTP_201_CREATED rd" by (rule refused(1))
  with refused(2) show ?thesis by simp
next
  case (created reward wallet rd)
  from created(1) have rw: "rewards d pk = Some reward" by (rule get_object_Some)
  have 1: "(\<forall>rd. fst (redeem ru pk qp rq now code d) \<noteq> HTTP_201_CREATED rd)
       \<longrightarrow> snd (redeem ru pk qp rq now code d) = d"
    using created(5) by simp
  have 2: "\<forall>reward. rewards d pk = Some reward
          \<and> \<not> fst (can_redeem reward pk (user_id ru) now d)
       \<longrightarrow> (\<forall>rd. fst (redeem ru pk qp rq now code d) \<noteq> HTTP_201_CREATED rd)"
    using rw created(3) by auto
  have 3: "\<forall>rd'. fst (redeem ru pk qp rq now code d) = HTTP_201_CREATED rd'
       \<longrightarrow> (\<exists>reward wallet.
              rewards d pk = Some reward \<and> wallets d (user_id ru) = Some wallet
              \<and> rd' = \<lparr>rd_user = user_id ru, rd_reward = pk, rd_fore_cost = fore_cost reward,
                      rd_status = PENDING,
                      delivery_address =
                        (case req_delivery_address rq of None \<Rightarrow> [] | Some a \<Rightarrow> a),
                      delivery_phone =
                        (case req_delivery_phone rq of None \<Rightarrow> [] | Some p \<Rightarrow> p),
                      redemption_code = code\<rparr>
              \<and> snd (redeem ru pk qp rq now code d) = redeemed_db pk reward wallet rd' d)"
  proof (intro allI impI)
    fix rd' assume "fst (redeem ru pk qp rq now code d) = HTTP_201_CREATED rd'"
    with created(5) have "rd' = rd" by simp
    with rw created(2,4,5) show "\<exists>reward wallet.
              rewards d pk = Some reward \<and> wallets d (user_id ru) = Some wallet
              \<and> rd' = \<lparr>rd_user = user_id ru, rd_reward = pk, rd_fore_cost = fore_cost reward,
                      rd_status = PENDING,
                      delivery_address =
                        (case req_delivery_address rq of None \<Rightarrow> [] | Some a \<Rightarrow> a),
                      delivery_phone =
                        (case req_delivery_phone rq of None \<Rightarrow> [] | Some p \<Rightarrow> p),
                      redemption_code = code\<rparr>
              \<and> snd (redeem ru pk qp rq now code d) = redeemed_db pk reward wallet rd' d"
      by (intro exI[of _ reward] exI[of _ wallet]) simp
  qed
  from 1 2 3 show ?thesis by blast
qed

theorem redemption_all_or_nothing_witness:
  "redeem ana 7 no_params taza_request 0 ''AB12CD34'' shop_db =
     (HTTP_201_CREATED
        \<lparr>rd_user = 1, rd_reward = 7, rd_fore_cost = 30, rd_status = PENDING,
         delivery_address = ''Calle 1'', delivery_phone = [], redemption_code = ''AB12CD34''\<rparr>,
      shop_db\<lparr>wallets := Map.empty(1 \<mapsto>
                 \<lparr>w_user = 1, balance = 70, total_earned = 100, total_spent = 30,
                  frozen_amount = 0\<rparr>),
              transactions :=
                [\<lparr>t_user = 1, transaction_type = REWARD_PURCHASE, amount = - 30,
                  balance_after = 70, description = ''Canje de recompensa: Taza'',
                  related_course = None, related_lesson = None, related_quiz = None,
                  related_achievement = None\<rparr>],
              redemptions :=
                [\<lparr>rd_user = 1, rd_reward = 7, rd_fore_cost = 30, rd_status = PENDING,
                  delivery_address = ''Calle 1'', delivery_phone = [],
                  redemption_code = ''AB12CD34''\<rparr>],
              rewards := Map.empty(7 \<mapsto> taza\<lparr>total_redeemed := 1, stock_quantity := Some 0\<rparr>)\<rparr>)
   \<and> snd (redeem ana 7 no_params taza_request 0 ''AB12CD34'' shop_db) =
       redeemed_db 7 taza
         \<lparr>w_user = 1, balance = 100, total_earned = 100, total_spent = 0, frozen_amount = 0\<rparr>
         \<lparr>rd_user = 1, rd_reward = 7, rd_fore_cost = 30, rd_status = PENDING,
          delivery_address = ''Calle 1'', delivery_phone = [], redemption_code = ''AB12CD34''\<rparr>
         shop_db
   \<and> rewards shop_db 7 = Some taza
   \<and> \<not> fst (can_redeem taza 7 (user_id beto) 0 shop_db)
   \<and> fst (redeem beto 7 no_params taza_request 0 ''AB12CD34'' shop_db)
       = HTTP_400_CANNOT_REDEEM NoWalletMessage
   \<and> snd (redeem beto 7 no_params taza_request 0 ''AB12CD34'' shop_db) = shop_db"
proof -
  have a: "redeem ana 7 no_params taza_request 0 ''AB12CD34'' shop_db =
     (HTTP_201_CREATED
        \<lparr>rd_user = 1, rd_reward = 7, rd_fore_cost = 30, rd_status = PENDING,
         delivery_address = ''Calle 1'', delivery_phone = [], redemption_code = ''AB12CD34''\<rparr>,
      shop_db\<lparr>wallets := Map.empty(1 \<mapsto>
                 \<lparr>w_user = 1, balance = 70, total_earned = 100, total_spent = 30,
                  frozen_amount = 0\<rparr>),
              transactions :=
                [\<lparr>t_user = 1, transaction_type = REWARD_PURCHASE, amount = - 30,
                  balance_after = 70, description = ''Canje de recompensa: Taza'',
                  related_course = None, related_lesson = None, related_quiz = None,
                  related_achievement = None\<rparr>],
              redemptions :=
                [\<lparr>rd_user = 1, rd_reward = 7, rd_fore_cost = 30, rd_status = PENDING,
                  delivery_address = ''Calle 1'', delivery_phone = [],
                  redemption_code = ''AB12CD34''\<rparr>],
              rewards := Map.empty(7 \<mapsto> taza\<lparr>total_redeemed := 1, stock_quantity := Some 0\<rparr>)\<rparr>)"
    by (simp add: redeem_def get_object_def serializer_is_valid_def can_redeem_def
        reward_is_available_def user_redemptions_def can_spend_def available_balance_def
        spend_tokens_def wallet_save_def transaction_create_def redemption_description_def
        shop_db_def demo_db_def taza_def taza_request_def no_params_def ana_def Let_def)
  have rw: "rewards shop_db 7 = Some taza" by (simp add: shop_db_def)
  have w: "wallets shop_db 1 = Some
      \<lparr>w_user = 1, balance = 100, total_earned = 100, total_spent = 0, frozen_amount = 0\<rparr>"
    by (simp add: shop_db_def)
  have n: "\<not> fst (can_redeem taza 7 (user_id beto) 0 shop_db)"
    by (simp add: can_redeem_def reward_is_available_def shop_db_def taza_def beto_def)
  have b: "fst (redeem beto 7 no_params taza_request 0 ''AB12CD34'' shop_db)
       = HTTP_400_CANNOT_REDEEM NoWalletMessage"
    by (simp add: redeem_def get_object_def serializer_is_valid_def can_redeem_def
        reward_is_available_def shop_db_def demo_db_def taza_def taza_request_def
        no_params_def beto_def)
  note t1 = redemption_all_or_nothing[of ana 7 no_params taza_request 0 "''AB12CD34''" shop_db]
  note t2 = redemption_all_or_nothing[of beto 7 no_params taza_request 0 "''AB12CD34''" shop_db]
  from t2 b have c: "snd (redeem beto 7 no_params taza_request 0 ''AB12CD34'' shop_db) = shop_db"
    by simp
  from t1 a rw w have e: "snd (redeem ana 7 no_params taza_request 0 ''AB12CD34'' shop_db) =
       redeemed_db 7 taza
         \<lparr>w_user = 1, balance = 100, total_earned = 100, total_spent = 0, frozen_amount = 0\<rparr>
         \<lparr>rd_user = 1, rd_reward = 7, rd_fore_cost = 30, rd_status = PENDING,
          delivery_address = ''Calle 1'', delivery_phone = [], redemption_code = ''AB12CD34''\<rparr>
         shop_db"
    by (auto simp: ana_def)
  from a e rw n b c show ?thesis by blast
qed

end
